theory Spec2Isabelle
  imports Complex_Main
begin

section \<open>The layer graph API the builders call\<close>

text \<open>
  Both builders (\<^verbatim>\<open>zoo/vgg/vgg_c.py\<close>, \<^verbatim>\<open>zoo/xception/xception_c.py\<close>) only
  compose layer objects of \<^verbatim>\<open>tensorflow.keras\<close>. A layer is recorded with the
  arguments the source passes, the defaults of the API written out
  (\<^verbatim>\<open>strides=(1, 1)\<close>, \<^verbatim>\<open>padding='valid'\<close>, \<^verbatim>\<open>activation=None\<close>).
\<close>

datatype padding = Valid | Same

datatype activation = NoActivation | Relu | Softmax

datatype layer =
    InputLayer
  | Conv2D nat "nat \<times> nat" "nat \<times> nat" padding activation string
  | SeparableConv2D nat "nat \<times> nat" "nat \<times> nat" padding activation string
  | MaxPooling2D "nat \<times> nat" "nat \<times> nat" padding
  | BatchNormalization
  | ReLU
  | Flatten
  | GlobalAveragePooling2D
  | Dense nat activation string
  | Add

text \<open>
  A symbolic tensor is the handle a layer call returns: the identity of the node
  (the number the framework gave the layer object when it was created), the layer,
  the tensors the layer was called on, and the inferred shape without the batch
  axis (channels last).
\<close>

datatype tensor = Tensor nat layer "tensor list" "nat list"

fun node_id :: "tensor \<Rightarrow> nat" where
  "node_id (Tensor u l ins sh) = u"

fun op_of :: "tensor \<Rightarrow> layer" where
  "op_of (Tensor u l ins sh) = l"

fun inbound :: "tensor \<Rightarrow> tensor list" where
  "inbound (Tensor u l ins sh) = ins"

fun shape :: "tensor \<Rightarrow> nat list" where
  "shape (Tensor u l ins sh) = sh"

text \<open>
  Python exceptions as values: the \<^verbatim>\<open>Exception\<close> the VGG constructor raises, the
  \<^verbatim>\<open>KeyError\<close> of a dictionary lookup, and the \<^verbatim>\<open>ValueError\<close> a layer call
  raises when its input shape is not acceptable (tagged with the layer).
\<close>

datatype error = Exception string | KeyError int | ValueError layer

text \<open>
  Graph construction threads the framework's global state, the number of layer
  objects created so far, and may raise. The state is returned in both cases.
\<close>

type_synonym 'a build = "nat \<Rightarrow> (error + 'a) \<times> nat"

definition return :: "'a \<Rightarrow> 'a build" where
  "return a = (\<lambda>s. (Inr a, s))"

definition raise :: "error \<Rightarrow> 'a build" where
  "raise e = (\<lambda>s. (Inl e, s))"

definition bind :: "'a build \<Rightarrow> ('a \<Rightarrow> 'b build) \<Rightarrow> 'b build" where
  "bind m f = (\<lambda>s. case m s of (Inl e, s') \<Rightarrow> (Inl e, s') | (Inr a, s') \<Rightarrow> f a s')"

subsection \<open>Shape inference of the layers\<close>

text \<open>
  Output length of a convolution or pooling window along one axis:
  \<^verbatim>\<open>'same'\<close> gives \<open>ceil(n / stride)\<close>; \<^verbatim>\<open>'valid'\<close> gives
  \<open>floor((n - k) / stride) + 1\<close> and is an error when the window does not fit.
  A window or a stride of 0 is refused. Under \<^verbatim>\<open>'same'\<close> an axis of length 0
  stays of length 0: a plain convolution and a pooling pass it on, and it is the
  next unpadded window that raises on it (the max-pool that ends a VGG stage, the
  pointwise step of a separable convolution).
\<close>

definition conv_output_length :: "nat \<Rightarrow> nat \<Rightarrow> padding \<Rightarrow> nat \<Rightarrow> nat option" where
  "conv_output_length n k p st =
     (if k = 0 \<or> st = 0 then None
      else case p of
          Same \<Rightarrow> Some ((n + st - 1) div st)
        | Valid \<Rightarrow> if n < k then None else Some ((n - k) div st + 1))"

definition window_shape ::
  "nat \<times> nat \<Rightarrow> nat \<times> nat \<Rightarrow> padding \<Rightarrow> nat \<Rightarrow> nat \<Rightarrow> nat \<Rightarrow> nat list option" where
  "window_shape k st p h w c =
     (case conv_output_length h (fst k) p (fst st) of
        None \<Rightarrow> None
      | Some h' \<Rightarrow>
          (case conv_output_length w (snd k) p (snd st) of
             None \<Rightarrow> None
           | Some w' \<Rightarrow> Some [h', w', c]))"

text \<open>
  \<^verbatim>\<open>Conv2D\<close>: the number of filters must be positive (the constructor raises
  otherwise); the input needs at least three axes, the last three being height,
  width and channels, any axes before them being carried over as further batch
  axes; the input must have at least one channel. The window runs over height
  and width.
\<close>

definition conv2d_shape ::
  "nat \<Rightarrow> nat \<times> nat \<Rightarrow> nat \<times> nat \<Rightarrow> padding \<Rightarrow> nat list \<Rightarrow> nat list option" where
  "conv2d_shape f k st p sh =
     (if f = 0 then None
      else case rev sh of
          c # w # h # batch_axes \<Rightarrow>
            if c = 0 then None
            else (case window_shape k st p h w f of
                    None \<Rightarrow> None
                  | Some r \<Rightarrow> Some (rev batch_axes @ r))
        | _ \<Rightarrow> None)"

text \<open>
  \<^verbatim>\<open>SeparableConv2D\<close>: the number of filters must be positive; the input has
  exactly three axes and at least one channel. The depthwise convolution runs the
  window over height and width and keeps the channels; the pointwise convolution
  that follows is an unpadded 1x1 convolution to the number of filters, so it
  raises on an axis of length 0.
\<close>

definition separable_conv2d_shape ::
  "nat \<Rightarrow> nat \<times> nat \<Rightarrow> nat \<times> nat \<Rightarrow> padding \<Rightarrow> nat list \<Rightarrow> nat list option" where
  "separable_conv2d_shape f k st p sh =
     (if f = 0 then None
      else case sh of
          [h, w, c] \<Rightarrow>
            if c = 0 then None
            else (case conv_output_length h (fst k) p (fst st) of
                    None \<Rightarrow> None
                  | Some h' \<Rightarrow>
                      (case conv_output_length w (snd k) p (snd st) of
                         None \<Rightarrow> None
                       | Some w' \<Rightarrow> window_shape (1, 1) (1, 1) Valid h' w' f))
        | _ \<Rightarrow> None)"

text \<open>
  Elementwise merge of two shapes, as the merge layers compute it: the shorter
  shape is aligned to the end of the longer one, an axis of length 1 broadcasts,
  and two other lengths must be equal.
\<close>

fun broadcast_dims :: "nat list \<Rightarrow> nat list \<Rightarrow> nat list option" where
  "broadcast_dims [] [] = Some []"
| "broadcast_dims (i # is) (j # js) =
     (case broadcast_dims is js of
        None \<Rightarrow> None
      | Some r \<Rightarrow>
          if i = 1 then Some (j # r)
          else if j = 1 then Some (i # r)
          else if i \<noteq> j then None
          else Some (i # r))"
| "broadcast_dims _ _ = None"

definition elemwise_shape :: "nat list \<Rightarrow> nat list \<Rightarrow> nat list option" where
  "elemwise_shape shape1 shape2 =
     (let (a, b) = (if length shape1 < length shape2 then (shape2, shape1) else (shape1, shape2))
      in if b = [] then Some a
         else case broadcast_dims (drop (length a - length b) a) b of
             None \<Rightarrow> None
           | Some r \<Rightarrow> Some (take (length a - length b) a @ r))"

fun merge_shapes :: "nat list \<Rightarrow> nat list list \<Rightarrow> nat list option" where
  "merge_shapes acc [] = Some acc"
| "merge_shapes acc (sh # shs) =
     (case elemwise_shape acc sh of None \<Rightarrow> None | Some r \<Rightarrow> merge_shapes r shs)"

text \<open>
  The output shape of a layer created with the given arguments and called on
  tensors of the given shapes; \<open>None\<close> is the \<^verbatim>\<open>ValueError\<close> of the constructor
  or of the call. The pooling layers need one input with exactly three axes
  (height, width, channels).
\<close>

fun compute_output_shape :: "layer \<Rightarrow> nat list list \<Rightarrow> nat list option" where
  "compute_output_shape InputLayer shs = None"
| "compute_output_shape (Conv2D f k st p a init) shs =
     (case shs of [sh] \<Rightarrow> conv2d_shape f k st p sh | _ \<Rightarrow> None)"
| "compute_output_shape (SeparableConv2D f k st p a init) shs =
     (case shs of [sh] \<Rightarrow> separable_conv2d_shape f k st p sh | _ \<Rightarrow> None)"
| "compute_output_shape (MaxPooling2D k st p) shs =
     (case shs of [[h, w, c]] \<Rightarrow> window_shape k st p h w c | _ \<Rightarrow> None)"
| "compute_output_shape BatchNormalization shs =
     (case shs of [sh] \<Rightarrow> Some sh | _ \<Rightarrow> None)"
| "compute_output_shape ReLU shs =
     (case shs of [sh] \<Rightarrow> Some sh | _ \<Rightarrow> None)"
| "compute_output_shape Flatten shs =
     (case shs of [sh] \<Rightarrow> Some [prod_list sh] | _ \<Rightarrow> None)"
| "compute_output_shape GlobalAveragePooling2D shs =
     (case shs of [[h, w, c]] \<Rightarrow> Some [c] | _ \<Rightarrow> None)"
| "compute_output_shape (Dense n a init) shs =
     (case shs of
        [sh] \<Rightarrow> if sh = [] then None else Some (butlast sh @ [n])
      | _ \<Rightarrow> None)"
| "compute_output_shape Add shs =
     (case shs of
        sh1 # sh2 # rest \<Rightarrow> merge_shapes sh1 (sh2 # rest)
      | _ \<Rightarrow> None)"

text \<open>
  \<^verbatim>\<open>Input(shape)\<close> creates the placeholder node. \<^verbatim>\<open>L(...)(xs)\<close> creates the layer
  object (taking the next number) and calls it: the call infers the output shape.
  When the constructor or the call raises, the number is taken all the same.
\<close>

definition Input :: "nat list \<Rightarrow> tensor build" where
  "Input input_shape = (\<lambda>s. (Inr (Tensor s InputLayer [] input_shape), Suc s))"

definition call :: "layer \<Rightarrow> tensor list \<Rightarrow> tensor build" where
  "call l xs =
     (\<lambda>s. case compute_output_shape l (map shape xs) of
             None \<Rightarrow> (Inl (ValueError l), Suc s)
           | Some sh \<Rightarrow> (Inr (Tensor s l xs sh), Suc s))"

text \<open>\<^verbatim>\<open>Model(inputs, outputs)\<close>: the finalized graph between two nodes.\<close>

record model =
  model_inputs :: tensor
  model_outputs :: tensor

definition Model :: "tensor \<Rightarrow> tensor \<Rightarrow> model" where
  "Model ins outs = \<lparr>model_inputs = ins, model_outputs = outs\<rparr>"

text \<open>The shape a model reports for its output: the batch axis is unconstrained.\<close>

definition output_shape :: "model \<Rightarrow> nat option list" where
  "output_shape m = None # map Some (shape (model_outputs m))"

section \<open>The VGG builder\<close>

text \<open>The class attributes \<^verbatim>\<open>groups\<close>, \<^verbatim>\<open>init_weights\<close> and \<^verbatim>\<open>_model\<close>.\<close>

definition VGG_groups :: "int \<rightharpoonup> (nat \<times> nat) list" where
  "VGG_groups =
     [16 \<mapsto> [(1, 64), (2, 128), (3, 256), (3, 512), (3, 512)],
      19 \<mapsto> [(1, 64), (2, 128), (4, 256), (4, 256), (4, 256)]]"

definition VGG_init_weights :: string where
  "VGG_init_weights = ''glorot_uniform''"

record VGG =
  priv_model :: "model option"

definition VGG_model :: "VGG \<Rightarrow> model option" where
  "VGG_model self = priv_model self"

definition VGG_model_setter :: "VGG \<Rightarrow> model option \<Rightarrow> VGG" where
  "VGG_model_setter self m = self\<lparr>priv_model := m\<rparr>"

definition VGG_stem :: "tensor \<Rightarrow> tensor build" where
  "VGG_stem inputs = call (Conv2D 64 (3, 3) (1, 1) Same Relu VGG_init_weights) [inputs]"

text \<open>The loop \<^verbatim>\<open>for n in range(n_layers)\<close> of \<^verbatim>\<open>group\<close>.\<close>

fun VGG_group_convs :: "tensor \<Rightarrow> nat \<Rightarrow> nat \<Rightarrow> string \<Rightarrow> tensor build" where
  "VGG_group_convs x 0 n_filters init_weights = return x"
| "VGG_group_convs x (Suc n) n_filters init_weights =
     bind (call (Conv2D n_filters (3, 3) (1, 1) Same Relu init_weights) [x])
       (\<lambda>x. VGG_group_convs x n n_filters init_weights)"

definition VGG_group :: "tensor \<Rightarrow> nat \<Rightarrow> nat \<Rightarrow> string option \<Rightarrow> tensor build" where
  "VGG_group x n_layers n_filters init_weights =
     (let init_weights = (case init_weights of None \<Rightarrow> VGG_init_weights | Some i \<Rightarrow> i)
      in bind (VGG_group_convs x n_layers n_filters init_weights)
           (\<lambda>x. call (MaxPooling2D (2, 2) (2, 2) Valid) [x]))"

fun VGG_learner :: "tensor \<Rightarrow> (nat \<times> nat) list \<Rightarrow> tensor build" where
  "VGG_learner x [] = return x"
| "VGG_learner x ((n_layers, n_filters) # blocks) =
     bind (VGG_group x n_layers n_filters None) (\<lambda>x. VGG_learner x blocks)"

definition VGG_classifier :: "tensor \<Rightarrow> nat \<Rightarrow> tensor build" where
  "VGG_classifier x n_classes =
     bind (call Flatten [x]) (\<lambda>x.
     bind (call (Dense 4096 Relu VGG_init_weights) [x]) (\<lambda>x.
     bind (call (Dense 4096 Relu VGG_init_weights) [x]) (\<lambda>x.
     call (Dense n_classes Softmax VGG_init_weights) [x])))"

definition VGG_init :: "int \<Rightarrow> nat list \<Rightarrow> nat \<Rightarrow> VGG build" where
  "VGG_init n_layers input_shape n_classes =
     (if n_layers \<notin> set [16, 19] then raise (Exception ''VGG: Invalid value for n_layers'')
      else
        bind (Input input_shape) (\<lambda>inputs.
        bind (VGG_stem inputs) (\<lambda>x.
        bind (case VGG_groups n_layers of
                None \<Rightarrow> raise (KeyError n_layers)
              | Some blocks \<Rightarrow> VGG_learner x blocks) (\<lambda>x.
        bind (VGG_classifier x n_classes) (\<lambda>outputs.
        return \<lparr>priv_model = Some (Model inputs outputs)\<rparr>)))))"

section \<open>The Xception builder\<close>

definition Xception_init_weights :: string where
  "Xception_init_weights = ''glorot_uniform''"

record Xception =
  priv_model :: "model option"

definition Xception_model :: "Xception \<Rightarrow> model option" where
  "Xception_model self = Xception.priv_model self"

text \<open>The body of the setter is \<^verbatim>\<open>return self._model\<close>: the object is not changed.\<close>

definition Xception_model_setter :: "Xception \<Rightarrow> model option \<Rightarrow> Xception" where
  "Xception_model_setter self m = self"

text \<open>The nested function \<^verbatim>\<open>stem\<close> of \<^verbatim>\<open>entryFlow\<close>.\<close>

definition Xception_stem :: "tensor \<Rightarrow> string \<Rightarrow> tensor build" where
  "Xception_stem inputs init_weights =
     bind (call (Conv2D 32 (3, 3) (2, 2) Valid NoActivation init_weights) [inputs]) (\<lambda>x.
     bind (call BatchNormalization [x]) (\<lambda>x.
     bind (call ReLU [x]) (\<lambda>x.
     bind (call (Conv2D 64 (3, 3) (1, 1) Valid NoActivation init_weights) [x]) (\<lambda>x.
     bind (call BatchNormalization [x]) (\<lambda>x.
     call ReLU [x])))))"

definition Xception_projection_block :: "tensor \<Rightarrow> nat \<Rightarrow> string option \<Rightarrow> tensor build" where
  "Xception_projection_block x n_filters init_weights =
     (let init_weights = (case init_weights of None \<Rightarrow> Xception_init_weights | Some i \<Rightarrow> i);
          shortcut = x
      in
        bind (call (Conv2D n_filters (1, 1) (2, 2) Same NoActivation init_weights) [shortcut])
          (\<lambda>shortcut.
        bind (call BatchNormalization [shortcut]) (\<lambda>shortcut.
        bind (call (SeparableConv2D n_filters (3, 3) (1, 1) Same NoActivation init_weights) [x])
          (\<lambda>x.
        bind (call BatchNormalization [x]) (\<lambda>x.
        bind (call ReLU [x]) (\<lambda>x.
        bind (call (SeparableConv2D n_filters (3, 3) (1, 1) Same NoActivation init_weights) [x])
          (\<lambda>x.
        bind (call BatchNormalization [x]) (\<lambda>x.
        bind (call ReLU [x]) (\<lambda>x.
        bind (call (MaxPooling2D (3, 3) (2, 2) Same) [x]) (\<lambda>x.
        call Add [x, shortcut]))))))))))"

definition Xception_residual_block :: "tensor \<Rightarrow> nat \<Rightarrow> string option \<Rightarrow> tensor build" where
  "Xception_residual_block x n_filters init_weights =
     (let init_weights = (case init_weights of None \<Rightarrow> Xception_init_weights | Some i \<Rightarrow> i);
          shortcut = x
      in
        bind (call (SeparableConv2D n_filters (3, 3) (1, 1) Same NoActivation init_weights) [x])
          (\<lambda>x.
        bind (call BatchNormalization [x]) (\<lambda>x.
        bind (call ReLU [x]) (\<lambda>x.
        bind (call (SeparableConv2D n_filters (3, 3) (1, 1) Same NoActivation init_weights) [x])
          (\<lambda>x.
        bind (call BatchNormalization [x]) (\<lambda>x.
        bind (call ReLU [x]) (\<lambda>x.
        bind (call (SeparableConv2D n_filters (3, 3) (1, 1) Same NoActivation init_weights) [x])
          (\<lambda>x.
        bind (call BatchNormalization [x]) (\<lambda>x.
        bind (call ReLU [x]) (\<lambda>x.
        call Add [x, shortcut]))))))))))"

text \<open>The loops \<^verbatim>\<open>for n_filters in blocks\<close> of \<^verbatim>\<open>entryFlow\<close> and \<^verbatim>\<open>middleFlow\<close>.\<close>

fun Xception_entryFlow_blocks :: "tensor \<Rightarrow> nat list \<Rightarrow> string \<Rightarrow> tensor build" where
  "Xception_entryFlow_blocks x [] init_weights = return x"
| "Xception_entryFlow_blocks x (n_filters # blocks) init_weights =
     bind (Xception_projection_block x n_filters (Some init_weights))
       (\<lambda>x. Xception_entryFlow_blocks x blocks init_weights)"

definition Xception_entryFlow :: "tensor \<Rightarrow> nat list \<Rightarrow> string option \<Rightarrow> tensor build" where
  "Xception_entryFlow inputs blocks init_weights =
     (let init_weights = (case init_weights of None \<Rightarrow> Xception_init_weights | Some i \<Rightarrow> i)
      in bind (Xception_stem inputs init_weights)
           (\<lambda>x. Xception_entryFlow_blocks x blocks init_weights))"

fun Xception_middleFlow_blocks :: "tensor \<Rightarrow> nat list \<Rightarrow> string \<Rightarrow> tensor build" where
  "Xception_middleFlow_blocks x [] init_weights = return x"
| "Xception_middleFlow_blocks x (n_filters # blocks) init_weights =
     bind (Xception_residual_block x n_filters (Some init_weights))
       (\<lambda>x. Xception_middleFlow_blocks x blocks init_weights)"

definition Xception_middleFlow :: "tensor \<Rightarrow> nat list \<Rightarrow> string option \<Rightarrow> tensor build" where
  "Xception_middleFlow x blocks init_weights =
     (let init_weights = (case init_weights of None \<Rightarrow> Xception_init_weights | Some i \<Rightarrow> i)
      in Xception_middleFlow_blocks x blocks init_weights)"

text \<open>The nested function \<^verbatim>\<open>classifier\<close> of \<^verbatim>\<open>exitFlow\<close>.\<close>

definition Xception_classifier :: "tensor \<Rightarrow> nat \<Rightarrow> string \<Rightarrow> tensor build" where
  "Xception_classifier x n_classes init_weights =
     bind (call GlobalAveragePooling2D [x]) (\<lambda>x.
     call (Dense n_classes Softmax init_weights) [x])"

definition Xception_exitFlow :: "tensor \<Rightarrow> nat \<Rightarrow> string option \<Rightarrow> tensor build" where
  "Xception_exitFlow x n_classes init_weights =
     (let init_weights = (case init_weights of None \<Rightarrow> Xception_init_weights | Some i \<Rightarrow> i);
          shortcut = x
      in
        bind (call (Conv2D 1024 (1, 1) (2, 2) Same NoActivation init_weights) [shortcut])
          (\<lambda>shortcut.
        bind (call BatchNormalization [shortcut]) (\<lambda>shortcut.
        bind (call (SeparableConv2D 728 (3, 3) (1, 1) Same NoActivation init_weights) [x]) (\<lambda>x.
        bind (call BatchNormalization [x]) (\<lambda>x.
        bind (call (SeparableConv2D 1024 (3, 3) (1, 1) Same NoActivation init_weights) [x]) (\<lambda>x.
        bind (call BatchNormalization [x]) (\<lambda>x.
        bind (call ReLU [x]) (\<lambda>x.
        bind (call (MaxPooling2D (3, 3) (2, 2) Same) [x]) (\<lambda>x.
        bind (call Add [x, shortcut]) (\<lambda>x.
        bind (call (SeparableConv2D 1556 (3, 3) (1, 1) Same NoActivation init_weights) [x]) (\<lambda>x.
        bind (call BatchNormalization [x]) (\<lambda>x.
        bind (call ReLU [x]) (\<lambda>x.
        bind (call (SeparableConv2D 2048 (3, 3) (1, 1) Same NoActivation init_weights) [x]) (\<lambda>x.
        bind (call BatchNormalization [x]) (\<lambda>x.
        bind (call ReLU [x]) (\<lambda>x.
        Xception_classifier x n_classes init_weights))))))))))))))))"

definition Xception_init :: "nat list \<Rightarrow> nat \<Rightarrow> Xception build" where
  "Xception_init input_shape n_classes =
     bind (Input input_shape) (\<lambda>inputs.
     bind (Xception_entryFlow inputs [128, 256, 728] None) (\<lambda>x.
     bind (Xception_middleFlow x [728, 728, 728, 728, 728, 728, 728, 728] None) (\<lambda>x.
     bind (Xception_exitFlow x n_classes None) (\<lambda>outputs.
     return \<lparr>Xception.priv_model = Some (Model inputs outputs)\<rparr>))))"

section \<open>Reading a constructed graph\<close>

text \<open>
  \<open>peel ls y\<close> walks back from \<open>y\<close> through a chain of single-input nodes whose
  layers are \<open>ls\<close> (the last applied layer first) and returns the tensor the
  chain started from.
\<close>

fun peel :: "layer list \<Rightarrow> tensor \<Rightarrow> tensor option" where
  "peel [] y = Some y"
| "peel (l # ls) (Tensor u l' [z] sh) = (if l' = l then peel ls z else None)"
| "peel (l # ls) _ = None"

text \<open>Calling the layers of a list one after the other, each on the output of the last.\<close>

fun call_sequence :: "layer list \<Rightarrow> tensor \<Rightarrow> tensor build" where
  "call_sequence [] x = return x"
| "call_sequence (l # ls) x = bind (call l [x]) (call_sequence ls)"

text \<open>
  The layers of one stage of the VGG learner as the specification words it:
  \<open>repeat\<close> same-padded stride-1 3x3 convolutions of the width, then one 2x2
  stride-2 max-pool.
\<close>

definition stage_layers :: "nat \<times> nat \<Rightarrow> layer list" where
  "stage_layers = (\<lambda>(repeat, width).
     replicate repeat (Conv2D width (3, 3) (1, 1) Same Relu ''glorot_uniform'')
       @ [MaxPooling2D (2, 2) (2, 2) Valid])"

text \<open>
  The layers of the whole VGG graph behind the input placeholder, in the order of
  the calls: the stem convolution, the stages of the table, the classifier.
\<close>

definition VGG_layers :: "(nat \<times> nat) list \<Rightarrow> nat \<Rightarrow> layer list" where
  "VGG_layers blocks n_classes =
     Conv2D 64 (3, 3) (1, 1) Same Relu ''glorot_uniform''
       # concat (map stage_layers blocks)
       @ [Flatten, Dense 4096 Relu ''glorot_uniform'', Dense 4096 Relu ''glorot_uniform'',
          Dense n_classes Softmax ''glorot_uniform'']"

text \<open>The layers on the path from the root to a tensor along first inputs.\<close>

fun trunk :: "tensor \<Rightarrow> layer list" where
  "trunk (Tensor u l [] sh) = [l]"
| "trunk (Tensor u l (z # zs) sh) = trunk z @ [l]"

text \<open>The nearest merge node at or behind a tensor, along first inputs.\<close>

fun find_merge :: "tensor \<Rightarrow> tensor option" where
  "find_merge (Tensor u l [] sh) = (if l = Add then Some (Tensor u l [] sh) else None)"
| "find_merge (Tensor u l (z # zs) sh) =
     (if l = Add then Some (Tensor u l (z # zs) sh) else find_merge z)"

definition is_separable :: "layer \<Rightarrow> bool" where
  "is_separable l = (case l of SeparableConv2D f k st p a i \<Rightarrow> True | _ \<Rightarrow> False)"

text \<open>
  The number of separable convolutions on the main branch (the first input of
  the merge) behind the merge node of a graph.
\<close>

definition separable_before_merge :: "tensor \<Rightarrow> nat option" where
  "separable_before_merge y =
     (case find_merge y of
        None \<Rightarrow> None
      | Some m \<Rightarrow>
          (case inbound m of
             [a, b] \<Rightarrow> Some (length (filter is_separable (trunk a)))
           | _ \<Rightarrow> None))"

text \<open>The layer lists of the Xception stem and blocks, in the order of the calls.\<close>

definition stem_layers :: "string \<Rightarrow> layer list" where
  "stem_layers w =
     [Conv2D 32 (3, 3) (2, 2) Valid NoActivation w, BatchNormalization, ReLU,
      Conv2D 64 (3, 3) (1, 1) Valid NoActivation w, BatchNormalization, ReLU]"

definition projection_main_layers :: "nat \<Rightarrow> string \<Rightarrow> layer list" where
  "projection_main_layers n w =
     [SeparableConv2D n (3, 3) (1, 1) Same NoActivation w, BatchNormalization, ReLU,
      SeparableConv2D n (3, 3) (1, 1) Same NoActivation w, BatchNormalization, ReLU,
      MaxPooling2D (3, 3) (2, 2) Same]"

definition projection_shortcut_layers :: "nat \<Rightarrow> string \<Rightarrow> layer list" where
  "projection_shortcut_layers n w =
     [Conv2D n (1, 1) (2, 2) Same NoActivation w, BatchNormalization]"

definition residual_main_layers :: "nat \<Rightarrow> string \<Rightarrow> layer list" where
  "residual_main_layers n w =
     [SeparableConv2D n (3, 3) (1, 1) Same NoActivation w, BatchNormalization, ReLU,
      SeparableConv2D n (3, 3) (1, 1) Same NoActivation w, BatchNormalization, ReLU,
      SeparableConv2D n (3, 3) (1, 1) Same NoActivation w, BatchNormalization, ReLU]"

text \<open>
  Reading projection blocks back from a tensor: for each width (the last block
  first) the tensor must be an \<open>Add\<close> of a main branch and a shortcut branch of
  that width over one common input; the result is the input of the first block.
\<close>

fun projection_blocks_back :: "nat list \<Rightarrow> string \<Rightarrow> tensor \<Rightarrow> tensor option" where
  "projection_blocks_back [] w y = Some y"
| "projection_blocks_back (n # ns) w (Tensor u l [a, b] sh) =
     (if l = Add then
        (case peel (rev (projection_main_layers n w)) a of
           None \<Rightarrow> None
         | Some x \<Rightarrow>
             if peel (rev (projection_shortcut_layers n w)) b = Some x
             then projection_blocks_back ns w x else None)
      else None)"
| "projection_blocks_back (n # ns) w _ = None"

text \<open>The same for identity blocks: the shortcut is the block's input itself.\<close>

fun residual_blocks_back :: "nat list \<Rightarrow> string \<Rightarrow> tensor \<Rightarrow> tensor option" where
  "residual_blocks_back [] w y = Some y"
| "residual_blocks_back (n # ns) w (Tensor u l [a, b] sh) =
     (if l = Add \<and> peel (rev (residual_main_layers n w)) a = Some b
      then residual_blocks_back ns w b else None)"
| "residual_blocks_back (n # ns) w _ = None"

text \<open>The layer lists of the Xception exit flow, in the order of the calls.\<close>

definition exit_shortcut_layers :: "string \<Rightarrow> layer list" where
  "exit_shortcut_layers w =
     [Conv2D 1024 (1, 1) (2, 2) Same NoActivation w, BatchNormalization]"

definition exit_main_layers :: "string \<Rightarrow> layer list" where
  "exit_main_layers w =
     [SeparableConv2D 728 (3, 3) (1, 1) Same NoActivation w, BatchNormalization,
      SeparableConv2D 1024 (3, 3) (1, 1) Same NoActivation w, BatchNormalization, ReLU,
      MaxPooling2D (3, 3) (2, 2) Same]"

definition exit_tail_layers :: "nat \<Rightarrow> string \<Rightarrow> layer list" where
  "exit_tail_layers n_classes w =
     [SeparableConv2D 1556 (3, 3) (1, 1) Same NoActivation w, BatchNormalization, ReLU,
      SeparableConv2D 2048 (3, 3) (1, 1) Same NoActivation w, BatchNormalization, ReLU,
      GlobalAveragePooling2D, Dense n_classes Softmax w]"

text \<open>
  The structure of a graph: the same graph with the node numbers erased. Layers,
  their arguments, the wiring and the shapes are kept.
\<close>

fun erase :: "tensor \<Rightarrow> tensor" where
  "erase (Tensor u l ins sh) = Tensor 0 l (map erase ins) sh"

definition erase_model :: "model \<Rightarrow> model" where
  "erase_model m = Model (erase (model_inputs m)) (erase (model_outputs m))"

text \<open>
  Two constructions have the same outcome up to node numbers: both raise the same
  error, or both return values related by \<open>R\<close>, whatever states they start from.
\<close>

definition same_outcome :: "('a \<Rightarrow> 'a \<Rightarrow> bool) \<Rightarrow> 'a build \<Rightarrow> 'a build \<Rightarrow> bool" where
  "same_outcome R m1 m2 = (\<forall>s1 s2. rel_sum (=) R (fst (m1 s1)) (fst (m2 s2)))"

section \<open>Rules for running a construction\<close>

lemma return_apply: "return a s = (Inr a, s)"
  by (simp add: return_def)

lemma raise_apply: "raise e s = (Inl e, s)"
  by (simp add: raise_def)

lemma bind_ok: "m s = (Inr a, t) \<Longrightarrow> bind m f s = f a t"
  by (simp add: bind_def)

lemma bind_Inr:
  "bind m f s = (Inr y, s') \<longleftrightarrow> (\<exists>a t. m s = (Inr a, t) \<and> f a t = (Inr y, s'))"
  by (auto simp: bind_def split: prod.splits sum.splits)

lemma bind_Inl:
  "bind m f s = (Inl e, s') \<longleftrightarrow>
     (m s = (Inl e, s') \<or> (\<exists>a t. m s = (Inr a, t) \<and> f a t = (Inl e, s')))"
  by (auto simp: bind_def split: prod.splits sum.splits)

lemma bind_return_left: "bind (return a) f = f a"
  by (simp add: bind_def return_def)

lemma bind_assoc: "bind (bind m f) g = bind m (\<lambda>a. bind (f a) g)"
  by (auto simp: bind_def fun_eq_iff split: prod.splits sum.splits)

lemma Input_apply: "Input sh s = (Inr (Tensor s InputLayer [] sh), Suc s)"
  by (simp add: Input_def)

lemma call_apply:
  "call l xs s =
     (case compute_output_shape l (map shape xs) of
        None \<Rightarrow> (Inl (ValueError l), Suc s)
      | Some sh \<Rightarrow> (Inr (Tensor s l xs sh), Suc s))"
  by (simp add: call_def)

lemma bind_call:
  "bind (call l xs) f s =
     (case compute_output_shape l (map shape xs) of
        None \<Rightarrow> (Inl (ValueError l), Suc s)
      | Some sh \<Rightarrow> f (Tensor s l xs sh) (Suc s))"
  by (simp add: bind_def call_def split: option.splits)

lemma call_Inr:
  "call l xs s = (Inr y, s') \<longleftrightarrow>
     (\<exists>sh. compute_output_shape l (map shape xs) = Some sh \<and> y = Tensor s l xs sh \<and> s' = Suc s)"
  by (auto simp: call_def split: option.splits)

lemma call_Inl:
  "call l xs s = (Inl e, s') \<longleftrightarrow>
     (compute_output_shape l (map shape xs) = None \<and> e = ValueError l \<and> s' = Suc s)"
  by (auto simp: call_def split: option.splits)

text \<open>Every layer object created advances the state; nothing takes it back.\<close>

lemma call_state: "snd (call l xs s) = Suc s"
  by (simp add: call_def split: option.splits)

lemma call_state_le: "s \<le> snd (call l xs s)"
  by (simp add: call_state)

lemma return_state_le: "s \<le> snd (return a s)"
  by (simp add: return_def)

lemma bind_state_le:
  assumes "\<And>s. s \<le> snd (m s)" "\<And>a s. s \<le> snd (f a s)"
  shows "s \<le> snd (bind m f s)"
proof (cases "m s")
  case (Pair r t)
  with assms(1)[of s] have st: "s \<le> t" by simp
  show ?thesis
  proof (cases r)
    case (Inl e)
    with Pair st show ?thesis by (simp add: bind_def)
  next
    case (Inr a)
    with Pair st assms(2)[of t a] show ?thesis by (simp add: bind_def)
  qed
qed

subsection \<open>Window arithmetic\<close>

lemma pool_shape:
  "window_shape (2, 2) (2, 2) Valid h w c =
     (if 2 \<le> h \<and> 2 \<le> w then Some [h div 2, w div 2, c] else None)"
  by (auto simp: window_shape_def conv_output_length_def)

lemma window_same_stride1 [simp]:
  "window_shape (3, 3) (Suc 0, Suc 0) Same h w c = Some [h, w, c]"
  by (simp add: window_shape_def conv_output_length_def)

lemma window_same_stride2_k1 [simp]:
  "window_shape (Suc 0, Suc 0) (2, 2) Same h w c = Some [(h + 1) div 2, (w + 1) div 2, c]"
  by (simp add: window_shape_def conv_output_length_def)

lemma window_same_stride2_k3 [simp]:
  "window_shape (3, 3) (2, 2) Same h w c = Some [(h + 1) div 2, (w + 1) div 2, c]"
  by (simp add: window_shape_def conv_output_length_def)

lemma broadcast_dims_same: "broadcast_dims xs xs = Some xs"
  by (induction xs) simp_all

lemma elemwise_shape_same [simp]: "elemwise_shape xs xs = Some xs"
  by (simp add: elemwise_shape_def broadcast_dims_same)

lemma half_ceiling: "Suc h div 2 = nat \<lceil>real h / 2\<rceil>"
  by linarith

subsection \<open>Chains of calls\<close>

lemma peel_append:
  "peel (as @ bs) y = (case peel as y of None \<Rightarrow> None | Some z \<Rightarrow> peel bs z)"
  by (induction as y rule: peel.induct) simp_all

lemma call_sequence_single: "call_sequence [l] = (\<lambda>x. call l [x])"
  by (rule ext) (auto simp: bind_def return_def fun_eq_iff split: prod.splits sum.splits)

lemma call_sequence_append:
  "call_sequence (as @ bs) x = bind (call_sequence as x) (call_sequence bs)"
proof (induction as arbitrary: x)
  case Nil
  show ?case by (simp add: bind_return_left)
next
  case (Cons a as)
  have "call_sequence (as @ bs) = (\<lambda>x. bind (call_sequence as x) (call_sequence bs))"
    by (rule ext) (rule Cons.IH)
  then show ?case by (simp add: bind_assoc)
qed

lemma call_sequence_Inr:
  "call_sequence ls x s = (Inr y, s') \<Longrightarrow> peel (rev ls) y = Some x \<and> s' = s + length ls"
proof (induction ls arbitrary: x s)
  case Nil
  then show ?case by (simp add: return_apply)
next
  case (Cons l ls)
  then obtain sh where
    1: "call_sequence ls (Tensor s l [x] sh) (Suc s) = (Inr y, s')"
    by (auto simp: bind_Inr call_Inr)
  from Cons.IH[OF 1] show ?case by (simp add: peel_append)
qed

lemma bind_return_right: "bind m return = m"
  by (auto simp: bind_def return_def fun_eq_iff split: prod.splits sum.splits)

lemma call_sequence_Nil_fun: "call_sequence [] = return"
  by (rule ext) simp

lemma call_sequence_Cons_fun:
  "call_sequence (l # ls) = (\<lambda>x. bind (call l [x]) (call_sequence ls))"
  by (rule ext) simp

subsection \<open>Shapes of the convolutions on an input with three axes\<close>

lemma conv2d_shape_3 [simp]:
  "conv2d_shape f k st p [h, w, c] =
     (if f = 0 \<or> c = 0 then None else window_shape k st p h w f)"
  by (simp add: conv2d_shape_def split: option.splits)

lemma separable_conv2d_shape_same [simp]:
  "separable_conv2d_shape f (3, 3) (Suc 0, Suc 0) Same [h, w, c] =
     (if f = 0 \<or> c = 0 \<or> h = 0 \<or> w = 0 then None else Some [h, w, f])"
  by (auto simp: separable_conv2d_shape_def window_shape_def conv_output_length_def)

lemma separable_conv2d_shape_Some:
  assumes "separable_conv2d_shape f (3, 3) (1, 1) Same sh = Some r"
  shows "\<exists>h w c. sh = [h, w, c] \<and> 0 < h \<and> 0 < w \<and> 0 < c \<and> 0 < f"
proof -
  from assms obtain h w c where sh: "sh = [h, w, c]"
    by (auto simp: separable_conv2d_shape_def split: if_splits list.splits)
  with assms show ?thesis by (auto split: if_splits)
qed

section \<open>The VGG builder: shapes, failures, state\<close>

lemma VGG_group_convs_ok:
  "shape x = [h, w, c] \<Longrightarrow> 0 < c \<Longrightarrow> 0 < f \<Longrightarrow>
   \<exists>y c'. VGG_group_convs x r f i s = (Inr y, s + r) \<and> shape y = [h, w, c'] \<and> 0 < c'"
proof (induction r arbitrary: x c s)
  case 0
  then show ?case by (simp add: return_apply)
next
  case (Suc r)
  let ?x1 = "Tensor s (Conv2D f (3, 3) (1, 1) Same Relu i) [x] [h, w, f]"
  have c: "call (Conv2D f (3, 3) (1, 1) Same Relu i) [x] s = (Inr ?x1, Suc s)"
    using Suc.prems by (simp add: call_apply)
  have "shape ?x1 = [h, w, f]" by simp
  from Suc.IH[OF this \<open>0 < f\<close> \<open>0 < f\<close>, of "Suc s"] c show ?case
    by (simp add: bind_ok)
qed

lemma VGG_group_ok:
  assumes "shape x = [h, w, c]" "0 < c" "0 < f" "2 \<le> h" "2 \<le> w"
  shows "\<exists>y c'. VGG_group x r f i s = (Inr y, s + r + 1)
           \<and> shape y = [h div 2, w div 2, c'] \<and> 0 < c'"
proof -
  obtain x1 c1 where
    1: "VGG_group_convs x r f (case i of None \<Rightarrow> VGG_init_weights | Some j \<Rightarrow> j) s
          = (Inr x1, s + r)"
    and 2: "shape x1 = [h, w, c1]" and 3: "0 < c1"
    using VGG_group_convs_ok[OF assms(1-3)] by blast
  have "call (MaxPooling2D (2, 2) (2, 2) Valid) [x1] (s + r) =
     (Inr (Tensor (s + r) (MaxPooling2D (2, 2) (2, 2) Valid) [x1] [h div 2, w div 2, c1]),
      Suc (s + r))"
    using assms 2 by (simp add: call_apply pool_shape)
  with 1 3 show ?thesis by (simp add: VGG_group_def bind_ok)
qed

lemma VGG_group_fail:
  assumes "shape x = [h, w, c]" "0 < c" "0 < f" "h < 2 \<or> w < 2"
  shows "VGG_group x r f i s = (Inl (ValueError (MaxPooling2D (2, 2) (2, 2) Valid)), s + r + 1)"
proof -
  obtain x1 c1 where
    1: "VGG_group_convs x r f (case i of None \<Rightarrow> VGG_init_weights | Some j \<Rightarrow> j) s
          = (Inr x1, s + r)"
    and 2: "shape x1 = [h, w, c1]"
    using VGG_group_convs_ok[OF assms(1-3)] by blast
  have "call (MaxPooling2D (2, 2) (2, 2) Valid) [x1] (s + r) =
     (Inl (ValueError (MaxPooling2D (2, 2) (2, 2) Valid)), Suc (s + r))"
    using assms 2 by (auto simp add: call_apply pool_shape)
  with 1 show ?thesis by (simp add: VGG_group_def bind_ok)
qed

lemma length_stage_layers: "length (stage_layers (r, f)) = r + 1"
  by (simp add: stage_layers_def)

lemma VGG_learner_ok:
  "shape x = [h, w, c] \<Longrightarrow> 0 < c \<Longrightarrow> \<forall>b \<in> set blocks. 0 < snd b \<Longrightarrow>
   2 ^ length blocks \<le> h \<Longrightarrow> 2 ^ length blocks \<le> w \<Longrightarrow>
   \<exists>y c' s'. VGG_learner x blocks s = (Inr y, s') \<and>
      shape y = [h div 2 ^ length blocks, w div 2 ^ length blocks, c']"
proof (induction blocks arbitrary: x h w c s)
  case Nil
  then show ?case by (simp add: return_apply)
next
  case (Cons b blocks)
  obtain r f where b: "b = (r, f)" by (cases b)
  from Cons.prems have h2: "2 \<le> h" "2 \<le> w"
    by (auto intro: order_trans[rotated] simp: self_le_power)
  from Cons.prems b have f: "0 < f" and rest: "\<forall>b \<in> set blocks. 0 < snd b" by auto
  from VGG_group_ok[OF Cons.prems(1,2) f h2, of r None s]
  obtain x1 c1 where 1: "VGG_group x r f None s = (Inr x1, s + r + 1)"
    and 2: "shape x1 = [h div 2, w div 2, c1]" and 3: "0 < c1" by blast
  have "2 ^ length blocks \<le> h div 2" "2 ^ length blocks \<le> w div 2"
    using Cons.prems by (simp_all add: less_eq_div_iff_mult_less_eq mult.commute)
  from Cons.IH[OF 2 3 rest this, of "s + r + 1"] 1 show ?case
    by (auto simp: b bind_ok div_mult2_eq)
qed

text \<open>
  When a spatial axis is too short for all the stages, the learner fails in the
  max-pool that ends the first stage whose input is shorter than 2: all the
  layers of the stages up to it have been created, and no other.
\<close>

lemma VGG_learner_fail:
  "shape x = [h, w, c] \<Longrightarrow> 0 < c \<Longrightarrow> \<forall>b \<in> set blocks. 0 < snd b \<Longrightarrow> blocks \<noteq> [] \<Longrightarrow>
   h < 2 ^ length blocks \<or> w < 2 ^ length blocks \<Longrightarrow>
   \<exists>j < length blocks.
      VGG_learner x blocks s =
        (Inl (ValueError (MaxPooling2D (2, 2) (2, 2) Valid)),
         s + length (concat (map stage_layers (take (Suc j) blocks))))
      \<and> (j = 0 \<or> (2 ^ j \<le> h \<and> 2 ^ j \<le> w))
      \<and> (h < 2 ^ Suc j \<or> w < 2 ^ Suc j)"
proof (induction blocks arbitrary: x h w c s)
  case Nil
  then show ?case by simp
next
  case (Cons b blocks)
  obtain r f where b: "b = (r, f)" by (cases b)
  from Cons.prems b have f: "0 < f" and rest: "\<forall>b \<in> set blocks. 0 < snd b" by auto
  show ?case
  proof (cases "h < 2 \<or> w < 2")
    case True
    from VGG_group_fail[OF Cons.prems(1,2) f True, of r None s]
    have "VGG_learner x (b # blocks) s =
        (Inl (ValueError (MaxPooling2D (2, 2) (2, 2) Valid)),
         s + length (concat (map stage_layers (take (Suc 0) (b # blocks)))))"
      by (simp add: b bind_def length_stage_layers)
    with True show ?thesis by (intro exI[of _ 0]) simp
  next
    case False
    then have h2: "2 \<le> h" "2 \<le> w" by auto
    from VGG_group_ok[OF Cons.prems(1,2) f h2, of r None s]
    obtain x1 c1 where 1: "VGG_group x r f None s = (Inr x1, s + r + 1)"
      and 2: "shape x1 = [h div 2, w div 2, c1]" and 3: "0 < c1" by blast
    have ne: "blocks \<noteq> []" using Cons.prems(5) False by (cases blocks) auto
    have "h div 2 < 2 ^ length blocks \<or> w div 2 < 2 ^ length blocks"
      using Cons.prems(5) by (auto simp: div_less_iff_less_mult mult.commute)
    from Cons.IH[OF 2 3 rest ne this, of "s + r + 1"] obtain j where
      j: "j < length blocks"
      and e: "VGG_learner x1 blocks (s + r + 1) =
        (Inl (ValueError (MaxPooling2D (2, 2) (2, 2) Valid)),
         s + r + 1 + length (concat (map stage_layers (take (Suc j) blocks))))"
      and lo: "j = 0 \<or> (2 ^ j \<le> h div 2 \<and> 2 ^ j \<le> w div 2)"
      and hi: "h div 2 < 2 ^ Suc j \<or> w div 2 < 2 ^ Suc j" by blast
    have e': "VGG_learner x (b # blocks) s =
        (Inl (ValueError (MaxPooling2D (2, 2) (2, 2) Valid)),
         s + length (concat (map stage_layers (take (Suc (Suc j)) (b # blocks)))))"
      using 1 e by (simp add: b bind_ok length_stage_layers add.assoc)
    have lo': "2 ^ Suc j \<le> h \<and> 2 ^ Suc j \<le> w"
      using lo h2 by (auto simp: less_eq_div_iff_mult_less_eq mult.commute)
    have hi': "h < 2 ^ Suc (Suc j) \<or> w < 2 ^ Suc (Suc j)"
      using hi by (auto simp: div_less_iff_less_mult mult.commute)
    from j e' lo' hi' show ?thesis by (intro exI[of _ "Suc j"]) simp
  qed
qed

lemma VGG_stem_ok:
  "shape x = [h, w, c] \<Longrightarrow> 0 < c \<Longrightarrow>
   \<exists>y. VGG_stem x s = (Inr y, Suc s) \<and> shape y = [h, w, 64]"
  by (simp add: VGG_stem_def call_apply)

lemma VGG_classifier_ok:
  "shape x = [a, b, c] \<Longrightarrow> \<exists>y. VGG_classifier x k s = (Inr y, s + 4)"
  by (simp add: VGG_classifier_def bind_call call_apply)

lemma VGG_classifier_Inr:
  "VGG_classifier x k s = (Inr y, s') \<Longrightarrow>
   op_of y = Dense k Softmax ''glorot_uniform'' \<and> shape y = [k]"
  by (auto simp: VGG_classifier_def VGG_init_weights_def bind_Inr call_Inr
      split: list.splits if_splits)

lemma VGG_groups_valid:
  "n = 16 \<or> n = 19 \<Longrightarrow>
   \<exists>blocks. VGG_groups n = Some blocks \<and> length blocks = 5 \<and> (\<forall>b \<in> set blocks. 0 < snd b)"
  by (auto simp: VGG_groups_def)

lemma VGG_init_valid:
  "n = 16 \<or> n = 19 \<Longrightarrow> VGG_groups n = Some blocks \<Longrightarrow>
   VGG_init n sh k =
     bind (Input sh) (\<lambda>inputs.
     bind (VGG_stem inputs) (\<lambda>x.
     bind (VGG_learner x blocks) (\<lambda>x.
     bind (VGG_classifier x k) (\<lambda>outputs.
     return \<lparr>VGG.priv_model = Some (Model inputs outputs)\<rparr>))))"
  by (auto simp: VGG_init_def)

lemma VGG_init_ok:
  assumes n: "n = 16 \<or> n = 19" and h: "32 \<le> h" "32 \<le> w" and c: "0 < c"
  shows "\<exists>self s'. VGG_init n [h, w, c] k s = (Inr self, s')"
proof -
  from VGG_groups_valid[OF n] obtain blocks where
    g: "VGG_groups n = Some blocks" and len: "length blocks = 5"
    and pos: "\<forall>b \<in> set blocks. 0 < snd b" by blast
  let ?i = "Tensor s InputLayer [] [h, w, c]"
  have "shape ?i = [h, w, c]" by simp
  from VGG_stem_ok[OF this c, of "Suc s"] obtain x0 where
    st: "VGG_stem ?i (Suc s) = (Inr x0, Suc (Suc s))" and sh0: "shape x0 = [h, w, 64]" by blast
  have "2 ^ length blocks \<le> h" "2 ^ length blocks \<le> w" using h len by simp_all
  from VGG_learner_ok[OF sh0 _ pos this, of "Suc (Suc s)"] obtain x1 c1 s1 where
    le: "VGG_learner x0 blocks (Suc (Suc s)) = (Inr x1, s1)"
    and sh1: "shape x1 = [h div 2 ^ length blocks, w div 2 ^ length blocks, c1]" by auto
  from VGG_classifier_ok[OF sh1, of k s1] obtain y where
    cl: "VGG_classifier x1 k s1 = (Inr y, s1 + 4)" by blast
  show ?thesis
    by (simp add: VGG_init_valid[OF n g] Input_apply bind_ok st le cl return_apply)
qed

lemma VGG_init_fail:
  assumes n: "n = 16 \<or> n = 19" and g: "VGG_groups n = Some blocks"
    and h: "h < 32 \<or> w < 32" and c: "0 < c"
  shows "\<exists>j < 5. VGG_init n [h, w, c] k s =
           (Inl (ValueError (MaxPooling2D (2, 2) (2, 2) Valid)),
            s + 2 + length (concat (map stage_layers (take (Suc j) blocks))))
         \<and> (j = 0 \<or> (2 ^ j \<le> h \<and> 2 ^ j \<le> w))
         \<and> (h < 2 ^ Suc j \<or> w < 2 ^ Suc j)"
proof -
  from VGG_groups_valid[OF n] g have len: "length blocks = 5"
    and pos: "\<forall>b \<in> set blocks. 0 < snd b" by auto
  let ?i = "Tensor s InputLayer [] [h, w, c]"
  have "shape ?i = [h, w, c]" by simp
  from VGG_stem_ok[OF this c, of "Suc s"] obtain x0 where
    st: "VGG_stem ?i (Suc s) = (Inr x0, Suc (Suc s))" and sh0: "shape x0 = [h, w, 64]" by blast
  have ne: "blocks \<noteq> []" using len by auto
  have "h < 2 ^ length blocks \<or> w < 2 ^ length blocks" using h len by simp
  from VGG_learner_fail[OF sh0 _ pos ne this, of "Suc (Suc s)"] obtain j where
    j: "j < length blocks"
    and le: "VGG_learner x0 blocks (Suc (Suc s)) =
           (Inl (ValueError (MaxPooling2D (2, 2) (2, 2) Valid)),
            Suc (Suc s) + length (concat (map stage_layers (take (Suc j) blocks))))"
    and lo: "j = 0 \<or> (2 ^ j \<le> h \<and> 2 ^ j \<le> w)"
    and hi: "h < 2 ^ Suc j \<or> w < 2 ^ Suc j" by auto
  have "VGG_init n [h, w, c] k s =
           (Inl (ValueError (MaxPooling2D (2, 2) (2, 2) Valid)),
            s + 2 + length (concat (map stage_layers (take (Suc j) blocks))))"
    by (simp add: VGG_init_valid[OF n g] Input_apply bind_def st le)
  with j len lo hi show ?thesis by auto
qed

lemma VGG_init_Inr:
  assumes "VGG_init n sh k s = (Inr self, s')"
  shows "\<exists>m. VGG_model self = Some m
           \<and> op_of (model_outputs m) = Dense k Softmax ''glorot_uniform''
           \<and> shape (model_outputs m) = [k]
           \<and> output_shape m = [None, Some k]"
proof -
  from assms have n: "n = 16 \<or> n = 19"
    by (auto simp: VGG_init_def raise_apply split: if_splits)
  from VGG_groups_valid[OF n] obtain blocks where
    g: "VGG_groups n = Some blocks" by blast
  from assms obtain i x t out where
    c: "VGG_classifier x k t = (Inr out, s')" and
    self: "self = \<lparr>VGG.priv_model = Some (Model i out)\<rparr>"
    by (auto simp: VGG_init_valid[OF n g] bind_Inr return_apply)
  from VGG_classifier_Inr[OF c] show ?thesis
    by (simp add: self VGG_model_def Model_def output_shape_def)
qed

lemma VGG_init_inputs:
  assumes "VGG_init n sh k s = (Inr self, s')"
  shows "\<exists>out. VGG_model self = Some (Model (Tensor s InputLayer [] sh) out)"
proof -
  from assms have n: "n = 16 \<or> n = 19"
    by (auto simp: VGG_init_def raise_apply split: if_splits)
  from VGG_groups_valid[OF n] obtain blocks where
    g: "VGG_groups n = Some blocks" by blast
  from assms show ?thesis
    by (auto simp: VGG_init_valid[OF n g] bind_Inr return_apply Input_apply VGG_model_def)
qed

text \<open>With a valid selector every failure is a \<^verbatim>\<open>ValueError\<close> of a layer call.\<close>

lemma VGG_group_convs_Inl:
  "VGG_group_convs x r f i s = (Inl e, s') \<Longrightarrow> \<exists>l. e = ValueError l"
  by (induction r arbitrary: x s) (auto simp: return_apply bind_Inl call_Inl call_Inr)

lemma VGG_group_Inl:
  "VGG_group x r f i s = (Inl e, s') \<Longrightarrow> \<exists>l. e = ValueError l"
  by (auto simp: VGG_group_def bind_Inl call_Inl dest: VGG_group_convs_Inl)

lemma VGG_learner_Inl:
  "VGG_learner x blocks s = (Inl e, s') \<Longrightarrow> \<exists>l. e = ValueError l"
  by (induction x blocks arbitrary: s rule: VGG_learner.induct)
     (auto simp: return_apply bind_Inl dest: VGG_group_Inl)

lemma VGG_classifier_Inl:
  "VGG_classifier x k s = (Inl e, s') \<Longrightarrow> \<exists>l. e = ValueError l"
  by (auto simp: VGG_classifier_def bind_Inl call_Inl)

lemma VGG_init_Inl:
  assumes n: "n = 16 \<or> n = 19" and e: "VGG_init n sh k s = (Inl e, s')"
  shows "\<exists>l. e = ValueError l"
proof -
  from VGG_groups_valid[OF n] obtain blocks where
    g: "VGG_groups n = Some blocks" by blast
  from e show ?thesis
    by (auto simp: VGG_init_valid[OF n g] bind_Inl Input_apply VGG_stem_def call_Inl return_apply
        dest: VGG_learner_Inl VGG_classifier_Inl)
qed

lemma VGG_group_convs_state_le: "s \<le> snd (VGG_group_convs x r f i s)"
  by (induction r arbitrary: x s) (auto intro!: bind_state_le call_state_le return_state_le)

lemma VGG_group_state_le: "s \<le> snd (VGG_group x r f i s)"
  by (auto simp: VGG_group_def intro!: bind_state_le call_state_le VGG_group_convs_state_le)

lemma VGG_learner_state_le: "s \<le> snd (VGG_learner x blocks s)"
  by (induction x blocks arbitrary: s rule: VGG_learner.induct)
     (auto intro!: bind_state_le return_state_le VGG_group_state_le)

lemma VGG_classifier_state_le: "s \<le> snd (VGG_classifier x k s)"
  by (auto simp: VGG_classifier_def intro!: bind_state_le call_state_le)

lemma VGG_init_state:
  assumes n: "n = 16 \<or> n = 19"
  shows "s < snd (VGG_init n sh k s)"
proof -
  from VGG_groups_valid[OF n] obtain blocks where
    g: "VGG_groups n = Some blocks" by blast
  have "Suc s \<le> snd (bind (VGG_stem (Tensor s InputLayer [] sh)) (\<lambda>x.
     bind (VGG_learner x blocks) (\<lambda>x.
     bind (VGG_classifier x k) (\<lambda>outputs.
     return \<lparr>VGG.priv_model = Some (Model (Tensor s InputLayer [] sh) outputs)\<rparr>))) (Suc s))"
    by (intro bind_state_le return_state_le VGG_learner_state_le VGG_classifier_state_le)
       (simp add: VGG_stem_def call_state)
  then show ?thesis
    by (simp add: VGG_init_valid[OF n g] bind_ok[OF Input_apply])
qed

text \<open>The learner is the sequence of the layers of its stages.\<close>

lemma VGG_group_convs_sequence:
  "VGG_group_convs x r f i = call_sequence (replicate r (Conv2D f (3, 3) (1, 1) Same Relu i)) x"
  by (induction r arbitrary: x) simp_all

lemma VGG_group_sequence:
  "VGG_group x r f None = call_sequence (stage_layers (r, f)) x"
  by (simp add: VGG_group_def stage_layers_def VGG_init_weights_def
      VGG_group_convs_sequence call_sequence_append call_sequence_single)

lemma VGG_learner_sequence:
  "VGG_learner x blocks = call_sequence (concat (map stage_layers blocks)) x"
  by (induction x blocks rule: VGG_learner.induct)
     (simp_all add: VGG_group_sequence call_sequence_append)

text \<open>The whole construction is the input placeholder and one sequence of calls.\<close>

lemma call_sequence_append_fun:
  "call_sequence (as @ bs) = (\<lambda>x. bind (call_sequence as x) (call_sequence bs))"
  by (rule ext) (rule call_sequence_append)

lemma VGG_init_sequence:
  assumes "n = 16 \<or> n = 19" "VGG_groups n = Some blocks"
  shows "VGG_init n sh k =
     bind (Input sh) (\<lambda>inputs.
     bind (call_sequence (VGG_layers blocks k) inputs) (\<lambda>outputs.
     return \<lparr>VGG.priv_model = Some (Model inputs outputs)\<rparr>))"
  by (simp add: VGG_init_valid[OF assms] VGG_stem_def VGG_learner_sequence VGG_classifier_def
      VGG_layers_def VGG_init_weights_def call_sequence_append_fun call_sequence_Cons_fun
      call_sequence_Nil_fun bind_return_right bind_assoc)

lemma VGG_init_graph:
  assumes "VGG_init n sh k s = (Inr self, s')"
  shows "\<exists>blocks m. VGG_groups n = Some blocks \<and> VGG_model self = Some m
           \<and> model_inputs m = Tensor s InputLayer [] sh
           \<and> peel (rev (VGG_layers blocks k)) (model_outputs m) = Some (model_inputs m)
           \<and> s' = s + 1 + length (VGG_layers blocks k)"
proof -
  from assms have n: "n = 16 \<or> n = 19"
    by (auto simp: VGG_init_def raise_apply split: if_splits)
  from VGG_groups_valid[OF n] obtain blocks where
    g: "VGG_groups n = Some blocks" by blast
  from assms obtain out where
    c: "call_sequence (VGG_layers blocks k) (Tensor s InputLayer [] sh) (Suc s) = (Inr out, s')"
    and self: "self = \<lparr>VGG.priv_model = Some (Model (Tensor s InputLayer [] sh) out)\<rparr>"
    by (auto simp: VGG_init_sequence[OF n g] bind_Inr return_apply Input_apply)
  from call_sequence_Inr[OF c] g show ?thesis
    by (simp add: self VGG_model_def Model_def)
qed

section \<open>The Xception blocks: shapes and failures\<close>

text \<open>
  On an input with three axes, all positive, and with a positive number of
  filters, a block runs through all its calls; the result is given with the node
  numbers and shapes it has. A block that returns was given such an input: its
  first separable convolution accepts no other.
\<close>

lemma init_weights_default:
  "(case iw of None \<Rightarrow> Xception_init_weights | Some i \<Rightarrow> i) =
   (case iw of None \<Rightarrow> ''glorot_uniform'' | Some i \<Rightarrow> i)"
  by (simp add: Xception_init_weights_def split: option.splits)

lemma Xception_projection_block_ok:
  assumes "shape x = [h, w, c]" "0 < h" "0 < w" "0 < c" "0 < n"
  shows "\<exists>a b. Xception_projection_block x n iw s =
            (Inr (Tensor (s + 9) Add [a, b] [(h + 1) div 2, (w + 1) div 2, n]), s + 10)
          \<and> shape a = [(h + 1) div 2, (w + 1) div 2, n]
          \<and> shape b = [(h + 1) div 2, (w + 1) div 2, n]
          \<and> peel (rev (projection_main_layers n
                (case iw of None \<Rightarrow> ''glorot_uniform'' | Some i \<Rightarrow> i))) a = Some x
          \<and> peel (rev (projection_shortcut_layers n
                (case iw of None \<Rightarrow> ''glorot_uniform'' | Some i \<Rightarrow> i))) b = Some x"
  using assms
  by (simp add: Xception_projection_block_def bind_call call_apply Let_def
      init_weights_default projection_main_layers_def projection_shortcut_layers_def)

lemma Xception_residual_block_ok:
  assumes "shape x = [h, w, n]" "0 < h" "0 < w" "0 < n"
  shows "\<exists>a. Xception_residual_block x n iw s =
            (Inr (Tensor (s + 9) Add [a, x] [h, w, n]), s + 10)
          \<and> shape a = [h, w, n]
          \<and> peel (rev (residual_main_layers n
                (case iw of None \<Rightarrow> ''glorot_uniform'' | Some i \<Rightarrow> i))) a = Some x"
  using assms
  by (simp add: Xception_residual_block_def bind_call call_apply Let_def
      init_weights_default residual_main_layers_def)

lemma Xception_exitFlow_ok:
  assumes "shape x = [h, v, c]" "0 < h" "0 < v" "0 < c"
  shows "\<exists>y m a b. Xception_exitFlow x k iw s = (Inr y, s + 17)
          \<and> peel (rev (exit_tail_layers k
                (case iw of None \<Rightarrow> ''glorot_uniform'' | Some i \<Rightarrow> i))) y = Some m
          \<and> op_of m = Add \<and> inbound m = [a, b] \<and> shape a = shape b
          \<and> peel (rev (exit_main_layers
                (case iw of None \<Rightarrow> ''glorot_uniform'' | Some i \<Rightarrow> i))) a = Some x
          \<and> peel (rev (exit_shortcut_layers
                (case iw of None \<Rightarrow> ''glorot_uniform'' | Some i \<Rightarrow> i))) b = Some x"
  using assms
  by (simp add: Xception_exitFlow_def Xception_classifier_def bind_call call_apply Let_def
      init_weights_default exit_main_layers_def exit_shortcut_layers_def exit_tail_layers_def)

lemma Xception_projection_block_good:
  assumes "Xception_projection_block x n iw s = (Inr y, s')"
  shows "\<exists>h w c. shape x = [h, w, c] \<and> 0 < h \<and> 0 < w \<and> 0 < c \<and> 0 < n"
proof -
  from assms have "\<exists>r. separable_conv2d_shape n (3, 3) (1, 1) Same (shape x) = Some r"
    by (auto simp: Xception_projection_block_def Let_def bind_Inr call_Inr)
  then show ?thesis using separable_conv2d_shape_Some by blast
qed

lemma Xception_residual_block_good:
  assumes "Xception_residual_block x n iw s = (Inr y, s')"
  shows "\<exists>h w c. shape x = [h, w, c] \<and> 0 < h \<and> 0 < w \<and> 0 < c \<and> 0 < n"
proof -
  from assms have "\<exists>r. separable_conv2d_shape n (3, 3) (1, 1) Same (shape x) = Some r"
    by (auto simp: Xception_residual_block_def Let_def bind_Inr call_Inr)
  then show ?thesis using separable_conv2d_shape_Some by blast
qed

lemma Xception_exitFlow_good:
  assumes "Xception_exitFlow x k iw s = (Inr y, s')"
  shows "\<exists>h w c. shape x = [h, w, c] \<and> 0 < h \<and> 0 < w \<and> 0 < c"
proof -
  from assms have "\<exists>r. separable_conv2d_shape 728 (3, 3) (1, 1) Same (shape x) = Some r"
    by (auto simp: Xception_exitFlow_def Let_def bind_Inr call_Inr)
  then show ?thesis using separable_conv2d_shape_Some by blast
qed

text \<open>A block does not fail in its \<open>Add\<close>.\<close>

lemma Xception_projection_block_Inl:
  assumes "Xception_projection_block x n iw s = (Inl e, s')"
  shows "e \<noteq> ValueError Add"
proof
  assume e: "e = ValueError Add"
  from assms have "\<exists>r. separable_conv2d_shape n (3, 3) (1, 1) Same (shape x) = Some r"
    unfolding e
    by (auto simp: Xception_projection_block_def Let_def bind_Inl bind_Inr call_Inl call_Inr)
  then obtain h w c where "shape x = [h, w, c]" "0 < h" "0 < w" "0 < c" "0 < n"
    using separable_conv2d_shape_Some by blast
  from Xception_projection_block_ok[OF this, of iw s] assms show False by auto
qed

lemma Xception_residual_block_Inl:
  assumes "Xception_residual_block x n iw s = (Inl e, s')" "shape x = [h, w, n]"
  shows "e \<noteq> ValueError Add"
proof
  assume e: "e = ValueError Add"
  from assms(1) have "\<exists>r. separable_conv2d_shape n (3, 3) (1, 1) Same (shape x) = Some r"
    unfolding e
    by (auto simp: Xception_residual_block_def Let_def bind_Inl bind_Inr call_Inl call_Inr)
  then have "0 < h" "0 < w" "0 < n"
    using separable_conv2d_shape_Some assms(2) by fastforce+
  from Xception_residual_block_ok[OF assms(2) this, of iw s] assms(1) show False by auto
qed

text \<open>The stem needs 7 rows and columns: two unpadded 3x3 windows, the first with stride 2.\<close>

lemma stem_windows:
  "7 \<le> h \<Longrightarrow> 7 \<le> w \<Longrightarrow>
   window_shape (3, 3) (2, 2) Valid h w c = Some [(h - 3) div 2 + 1, (w - 3) div 2 + 1, c]"
  "3 \<le> h \<Longrightarrow> 3 \<le> w \<Longrightarrow>
   window_shape (3, 3) (Suc 0, Suc 0) Valid h w c = Some [h - 2, w - 2, c]"
  by (auto simp: window_shape_def conv_output_length_def)

lemma Xception_stem_ok:
  assumes "shape x = [h, w, c]" "7 \<le> h" "7 \<le> w" "0 < c"
  shows "\<exists>y h' w'. Xception_stem x i s = (Inr y, s + 6) \<and> shape y = [h', w', 64]
           \<and> 0 < h' \<and> 0 < w'"
proof -
  have "3 \<le> (h - 3) div 2 + 1" "3 \<le> (w - 3) div 2 + 1" using assms by simp_all
  then show ?thesis using assms
    by (simp add: Xception_stem_def bind_call call_apply stem_windows)
qed

lemma Xception_entryFlow_blocks_ok:
  "shape x = [h, w, c] \<Longrightarrow> 0 < h \<Longrightarrow> 0 < w \<Longrightarrow> 0 < c \<Longrightarrow> \<forall>n \<in> set blocks. 0 < n \<Longrightarrow>
   \<exists>y s' h' w'. Xception_entryFlow_blocks x blocks i s = (Inr y, s')
      \<and> shape y = [h', w', last (c # blocks)] \<and> 0 < h' \<and> 0 < w'"
proof (induction blocks arbitrary: x h w c s)
  case Nil
  then show ?case by (simp add: return_apply)
next
  case (Cons n blocks)
  then have n: "0 < n" and rest: "\<forall>n \<in> set blocks. 0 < n" by auto
  from Xception_projection_block_ok[OF Cons.prems(1-4) n, of "Some i" s] obtain a b where
    1: "Xception_projection_block x n (Some i) s =
          (Inr (Tensor (s + 9) Add [a, b] [(h + 1) div 2, (w + 1) div 2, n]), s + 10)"
    by blast
  let ?y = "Tensor (s + 9) Add [a, b] [(h + 1) div 2, (w + 1) div 2, n]"
  have "shape ?y = [(h + 1) div 2, (w + 1) div 2, n]" by simp
  moreover have "0 < (h + 1) div 2" "0 < (w + 1) div 2" using Cons.prems by simp_all
  ultimately show ?case
    using Cons.IH[of ?y "(h + 1) div 2" "(w + 1) div 2" n "s + 10"] n rest 1
    by (auto simp: bind_ok)
qed

lemma Xception_middleFlow_blocks_ok:
  "shape x = [h, w, n] \<Longrightarrow> 0 < h \<Longrightarrow> 0 < w \<Longrightarrow> 0 < n \<Longrightarrow> set blocks \<subseteq> {n} \<Longrightarrow>
   \<exists>y s'. Xception_middleFlow_blocks x blocks i s = (Inr y, s') \<and> shape y = [h, w, n]"
proof (induction blocks arbitrary: x s)
  case Nil
  then show ?case by (simp add: return_apply)
next
  case (Cons m blocks)
  then have m: "m = n" and sub: "set blocks \<subseteq> {n}" by auto
  from Xception_residual_block_ok[OF Cons.prems(1-4), of "Some i" s] obtain a where
    1: "Xception_residual_block x n (Some i) s =
          (Inr (Tensor (s + 9) Add [a, x] [h, w, n]), s + 10)"
    by blast
  let ?y = "Tensor (s + 9) Add [a, x] [h, w, n]"
  have "shape ?y = [h, w, n]" by simp
  from Cons.IH[OF this Cons.prems(2-4) sub, of "s + 10"] 1 show ?case
    by (auto simp: bind_ok m)
qed

lemma Xception_init_ok:
  assumes "7 \<le> h" "7 \<le> w" "0 < c"
  shows "\<exists>self s' m. Xception_init [h, w, c] k s = (Inr self, s') \<and> Xception_model self = Some m"
proof -
  let ?i = "Tensor s InputLayer [] [h, w, c]"
  let ?g = "Xception_init_weights"
  have "shape ?i = [h, w, c]" by simp
  from Xception_stem_ok[OF this assms, of ?g "Suc s"] obtain x0 h0 w0 where
    st: "Xception_stem ?i ?g (Suc s) = (Inr x0, Suc s + 6)" and sh0: "shape x0 = [h0, w0, 64]"
    and p0: "0 < h0" "0 < w0"
    by blast
  from Xception_entryFlow_blocks_ok[OF sh0 p0, of "[128, 256, 728]" ?g "Suc s + 6"]
  obtain x1 s1 h1 w1 where
    en: "Xception_entryFlow_blocks x0 [128, 256, 728] ?g (Suc s + 6) = (Inr x1, s1)"
    and sh1: "shape x1 = [h1, w1, 728]" and p1: "0 < h1" "0 < w1" by auto
  from Xception_middleFlow_blocks_ok[OF sh1 p1,
      of "[728, 728, 728, 728, 728, 728, 728, 728]" ?g s1]
  obtain x2 s2 where
    mi: "Xception_middleFlow_blocks x1 [728, 728, 728, 728, 728, 728, 728, 728] ?g s1
           = (Inr x2, s2)"
    and sh2: "shape x2 = [h1, w1, 728]" by auto
  from Xception_exitFlow_ok[OF sh2 p1, of k None s2] obtain y where
    ex: "Xception_exitFlow x2 k None s2 = (Inr y, s2 + 17)" by auto
  have e1: "Xception_entryFlow ?i [128, 256, 728] None (Suc s) = (Inr x1, s1)"
    using st en by (simp add: Xception_entryFlow_def bind_ok)
  have e2: "Xception_middleFlow x1 [728, 728, 728, 728, 728, 728, 728, 728] None s1
              = (Inr x2, s2)"
    using mi by (simp add: Xception_middleFlow_def)
  show ?thesis
    unfolding Xception_init_def
    by (simp add: bind_def Input_apply e1 e2 ex return_apply Xception_model_def)
qed

subsection \<open>Reading the flows back from the graph\<close>

lemma projection_blocks_back_append:
  "projection_blocks_back (as @ bs) w y =
     (case projection_blocks_back as w y of None \<Rightarrow> None | Some z \<Rightarrow> projection_blocks_back bs w z)"
  by (induction as w y rule: projection_blocks_back.induct) (simp_all split: option.splits)

lemma residual_blocks_back_append:
  "residual_blocks_back (as @ bs) w y =
     (case residual_blocks_back as w y of None \<Rightarrow> None | Some z \<Rightarrow> residual_blocks_back bs w z)"
  by (induction as w y rule: residual_blocks_back.induct) (simp_all split: option.splits)

lemma Xception_projection_block_Inr:
  assumes "Xception_projection_block x n (Some w) s = (Inr y, s')"
  shows "projection_blocks_back [n] w y = Some x \<and> s' = s + 10"
proof -
  from Xception_projection_block_good[OF assms] obtain h v c where
    "shape x = [h, v, c]" "0 < h" "0 < v" "0 < c" "0 < n" by blast
  from Xception_projection_block_ok[OF this, of "Some w" s] assms show ?thesis
    by auto
qed

lemma Xception_residual_block_Inr:
  assumes "Xception_residual_block x n (Some w) s = (Inr y, s')"
  shows "residual_blocks_back [n] w y = Some x \<and> s' = s + 10"
  using assms
  by (auto simp: Xception_residual_block_def Let_def bind_Inr call_Inr residual_main_layers_def)

lemma Xception_entryFlow_blocks_Inr:
  "Xception_entryFlow_blocks x blocks w s = (Inr y, s') \<Longrightarrow>
   projection_blocks_back (rev blocks) w y = Some x \<and> s' = s + 10 * length blocks"
proof (induction blocks arbitrary: x s)
  case Nil
  then show ?case by (simp add: return_apply)
next
  case (Cons n blocks)
  then obtain x1 s1 where
    1: "Xception_projection_block x n (Some w) s = (Inr x1, s1)" and
    2: "Xception_entryFlow_blocks x1 blocks w s1 = (Inr y, s')"
    by (auto simp: bind_Inr)
  from Cons.IH[OF 2] Xception_projection_block_Inr[OF 1] show ?case
    by (simp add: projection_blocks_back_append)
qed

lemma Xception_middleFlow_blocks_Inr:
  "Xception_middleFlow_blocks x blocks w s = (Inr y, s') \<Longrightarrow>
   residual_blocks_back (rev blocks) w y = Some x \<and> s' = s + 10 * length blocks"
proof (induction blocks arbitrary: x s)
  case Nil
  then show ?case by (simp add: return_apply)
next
  case (Cons n blocks)
  then obtain x1 s1 where
    1: "Xception_residual_block x n (Some w) s = (Inr x1, s1)" and
    2: "Xception_middleFlow_blocks x1 blocks w s1 = (Inr y, s')"
    by (auto simp: bind_Inr)
  from Cons.IH[OF 2] Xception_residual_block_Inr[OF 1] show ?case
    by (simp add: residual_blocks_back_append)
qed

lemma Xception_stem_sequence: "Xception_stem inputs w = call_sequence (stem_layers w) inputs"
  by (simp add: Xception_stem_def stem_layers_def call_sequence_Cons_fun
      call_sequence_Nil_fun bind_return_right)

lemma Xception_entryFlow_Inr:
  assumes "Xception_entryFlow inputs blocks iw s = (Inr y, s')"
  shows "(\<exists>x. projection_blocks_back (rev blocks)
                 (case iw of None \<Rightarrow> ''glorot_uniform'' | Some i \<Rightarrow> i) y = Some x
              \<and> peel (rev (stem_layers (case iw of None \<Rightarrow> ''glorot_uniform'' | Some i \<Rightarrow> i))) x
                  = Some inputs)
         \<and> s' = s + 6 + 10 * length blocks"
proof -
  let ?w = "case iw of None \<Rightarrow> ''glorot_uniform'' | Some i \<Rightarrow> i"
  from assms obtain x s1 where
    1: "call_sequence (stem_layers ?w) inputs s = (Inr x, s1)" and
    2: "Xception_entryFlow_blocks x blocks ?w s1 = (Inr y, s')"
    by (auto simp: Xception_entryFlow_def Let_def bind_Inr Xception_stem_sequence
        init_weights_default)
  from call_sequence_Inr[OF 1] Xception_entryFlow_blocks_Inr[OF 2] show ?thesis
    by (simp add: stem_layers_def)
qed

lemma Xception_middleFlow_Inr:
  assumes "Xception_middleFlow x blocks iw s = (Inr y, s')"
  shows "residual_blocks_back (rev blocks)
           (case iw of None \<Rightarrow> ''glorot_uniform'' | Some i \<Rightarrow> i) y = Some x
         \<and> s' = s + 10 * length blocks"
  using assms Xception_middleFlow_blocks_Inr[of x blocks _ s y s']
  by (auto simp: Xception_middleFlow_def Let_def init_weights_default)

lemma Xception_entryFlow_small_input:
  "\<exists>y s'. Xception_entryFlow (Tensor 0 InputLayer [] [20, 20, 3]) [8, 16] None 1 = (Inr y, s')"
  by (simp add: Xception_entryFlow_def Xception_stem_def Xception_projection_block_def Let_def
      bind_assoc bind_call call_apply return_apply window_shape_def conv_output_length_def)

lemma Xception_middleFlow_small_input:
  "\<exists>y s'. Xception_middleFlow (Tensor 0 InputLayer [] [5, 5, 8]) [8, 8] (Some ''he_normal'') 1 = (Inr y, s')"
  by (simp add: Xception_middleFlow_def Xception_residual_block_def Let_def
      bind_assoc bind_return_right bind_call call_apply return_apply)

section \<open>Construction up to node numbers\<close>

text \<open>
  Each construction step maps inputs that are equal up to node numbers to
  outcomes that are equal up to node numbers, from whatever states it starts.
\<close>

lemma shape_erase: "shape (erase x) = shape x"
  by (cases x) simp

lemma same_outcome_return: "R a b \<Longrightarrow> same_outcome R (return a) (return b)"
  by (simp add: same_outcome_def return_def)

lemma same_outcome_raise: "same_outcome R (raise e) (raise e)"
  by (simp add: same_outcome_def raise_def)

lemma same_outcome_bind:
  assumes "same_outcome Q m1 m2" "\<And>a b. Q a b \<Longrightarrow> same_outcome R (f a) (g b)"
  shows "same_outcome R (bind m1 f) (bind m2 g)"
  unfolding same_outcome_def
proof (intro allI)
  fix s1 s2
  from assms(1) have q: "rel_sum (=) Q (fst (m1 s1)) (fst (m2 s2))"
    by (simp add: same_outcome_def)
  obtain r1 t1 r2 t2 where m: "m1 s1 = (r1, t1)" "m2 s2 = (r2, t2)"
    by (cases "m1 s1", cases "m2 s2") auto
  from q m have r: "rel_sum (=) Q r1 r2" by simp
  show "rel_sum (=) R (fst (bind m1 f s1)) (fst (bind m2 g s2))"
  proof (cases r1)
    case (Inl e)
    with r m show ?thesis by (cases r2) (simp_all add: bind_def)
  next
    case (Inr a)
    with r obtain b where b: "r2 = Inr b" "Q a b" by (cases r2) simp_all
    from assms(2)[OF b(2)] have "rel_sum (=) R (fst (f a t1)) (fst (g b t2))"
      by (simp add: same_outcome_def)
    with Inr b m show ?thesis by (simp add: bind_def)
  qed
qed

lemma same_outcome_Input:
  "same_outcome (\<lambda>a b. erase a = erase b) (Input sh) (Input sh)"
  by (simp add: same_outcome_def Input_def)

lemma same_outcome_call:
  assumes "map erase xs = map erase ys"
  shows "same_outcome (\<lambda>a b. erase a = erase b) (call l xs) (call l ys)"
proof -
  have "map shape (map erase xs) = map shape (map erase ys)" using assms by simp
  then have "map shape xs = map shape ys" by (simp add: shape_erase o_def)
  with assms show ?thesis
    by (simp add: same_outcome_def call_def split: option.splits)
qed

lemma same_outcome_call1:
  "erase x = erase y \<Longrightarrow> same_outcome (\<lambda>a b. erase a = erase b) (call l [x]) (call l [y])"
  by (rule same_outcome_call) simp

lemma same_outcome_call2:
  "erase x = erase y \<Longrightarrow> erase x' = erase y' \<Longrightarrow>
   same_outcome (\<lambda>a b. erase a = erase b) (call l [x, x']) (call l [y, y'])"
  by (rule same_outcome_call) simp

lemmas same_outcome_intros =
  same_outcome_bind[where Q = "\<lambda>a b. erase a = erase b"] same_outcome_call1 same_outcome_call2
  same_outcome_Input

lemma VGG_group_convs_same:
  "erase x = erase y \<Longrightarrow>
   same_outcome (\<lambda>a b. erase a = erase b) (VGG_group_convs x r f i) (VGG_group_convs y r f i)"
  by (induction r arbitrary: x y) (auto intro!: same_outcome_intros same_outcome_return)

lemma VGG_group_same:
  "erase x = erase y \<Longrightarrow>
   same_outcome (\<lambda>a b. erase a = erase b) (VGG_group x r f i) (VGG_group y r f i)"
  by (auto simp: VGG_group_def intro!: same_outcome_intros VGG_group_convs_same)

lemma VGG_learner_same:
  "erase x = erase y \<Longrightarrow>
   same_outcome (\<lambda>a b. erase a = erase b) (VGG_learner x blocks) (VGG_learner y blocks)"
  by (induction blocks arbitrary: x y)
     (auto intro!: same_outcome_intros same_outcome_return VGG_group_same)

lemma VGG_classifier_same:
  "erase x = erase y \<Longrightarrow>
   same_outcome (\<lambda>a b. erase a = erase b) (VGG_classifier x k) (VGG_classifier y k)"
  by (auto simp: VGG_classifier_def intro!: same_outcome_intros)

lemma VGG_init_same:
  "same_outcome (\<lambda>a b. map_option erase_model (VGG_model a) = map_option erase_model (VGG_model b))
     (VGG_init n sh k) (VGG_init n sh k)"
  unfolding VGG_init_def
  by (auto simp: VGG_stem_def VGG_model_def erase_model_def Model_def
      intro!: same_outcome_intros same_outcome_return same_outcome_raise
        VGG_learner_same VGG_classifier_same split: option.splits)

lemma Xception_stem_same:
  "erase x = erase y \<Longrightarrow>
   same_outcome (\<lambda>a b. erase a = erase b) (Xception_stem x w) (Xception_stem y w)"
  by (auto simp: Xception_stem_def intro!: same_outcome_intros)

lemma Xception_projection_block_same:
  "erase x = erase y \<Longrightarrow>
   same_outcome (\<lambda>a b. erase a = erase b)
     (Xception_projection_block x n iw) (Xception_projection_block y n iw)"
  by (auto simp: Xception_projection_block_def Let_def intro!: same_outcome_intros)

lemma Xception_residual_block_same:
  "erase x = erase y \<Longrightarrow>
   same_outcome (\<lambda>a b. erase a = erase b)
     (Xception_residual_block x n iw) (Xception_residual_block y n iw)"
  by (auto simp: Xception_residual_block_def Let_def intro!: same_outcome_intros)

lemma Xception_entryFlow_blocks_same:
  "erase x = erase y \<Longrightarrow>
   same_outcome (\<lambda>a b. erase a = erase b)
     (Xception_entryFlow_blocks x blocks w) (Xception_entryFlow_blocks y blocks w)"
  by (induction blocks arbitrary: x y)
     (auto intro!: same_outcome_intros same_outcome_return Xception_projection_block_same)

lemma Xception_middleFlow_blocks_same:
  "erase x = erase y \<Longrightarrow>
   same_outcome (\<lambda>a b. erase a = erase b)
     (Xception_middleFlow_blocks x blocks w) (Xception_middleFlow_blocks y blocks w)"
  by (induction blocks arbitrary: x y)
     (auto intro!: same_outcome_intros same_outcome_return Xception_residual_block_same)

lemma Xception_exitFlow_same:
  "erase x = erase y \<Longrightarrow>
   same_outcome (\<lambda>a b. erase a = erase b) (Xception_exitFlow x k iw) (Xception_exitFlow y k iw)"
  by (auto simp: Xception_exitFlow_def Xception_classifier_def Let_def intro!: same_outcome_intros)

lemma Xception_entryFlow_same:
  "erase x = erase y \<Longrightarrow>
   same_outcome (\<lambda>a b. erase a = erase b)
     (Xception_entryFlow x blocks iw) (Xception_entryFlow y blocks iw)"
  unfolding Xception_entryFlow_def Let_def
  by (intro same_outcome_intros Xception_stem_same Xception_entryFlow_blocks_same)

lemma Xception_middleFlow_same:
  "erase x = erase y \<Longrightarrow>
   same_outcome (\<lambda>a b. erase a = erase b)
     (Xception_middleFlow x blocks iw) (Xception_middleFlow y blocks iw)"
  unfolding Xception_middleFlow_def Let_def
  by (rule Xception_middleFlow_blocks_same)

lemma Xception_init_same:
  "same_outcome
     (\<lambda>a b. map_option erase_model (Xception_model a) = map_option erase_model (Xception_model b))
     (Xception_init sh k) (Xception_init sh k)"
  unfolding Xception_init_def
  by (intro same_outcome_intros same_outcome_return
        Xception_entryFlow_same Xception_middleFlow_same Xception_exitFlow_same)
     (simp_all add: Xception_model_def erase_model_def Model_def)

lemma same_outcome_map_sum:
  "same_outcome (\<lambda>a b. f a = f b) m1 m2 \<Longrightarrow>
   map_sum id f (fst (m1 s1)) = map_sum id f (fst (m2 s2))"
proof -
  assume "same_outcome (\<lambda>a b. f a = f b) m1 m2"
  then have "rel_sum (=) (\<lambda>a b. f a = f b) (fst (m1 s1)) (fst (m2 s2))"
    by (simp add: same_outcome_def)
  then show ?thesis by cases simp_all
qed

section \<open>The claims\<close>

text \<open>
  C1. The setter of \<^verbatim>\<open>Xception.model\<close> leaves the object as it was, so reading
  after writing \<open>m\<close> returns the model the object already had, not \<open>m\<close>: on the
  instance that \<^verbatim>\<open>Xception()\<close> constructs, writing \<^verbatim>\<open>None\<close> and reading does not
  return \<^verbatim>\<open>None\<close>. The setter of \<^verbatim>\<open>VGG.model\<close> stores \<open>m\<close> and the read returns it.
\<close>

theorem Xception_model_setter_ignored:
  "Xception_model (Xception_model_setter self m) = Xception_model self
   \<and> (\<exists>self s'. Xception_init [229, 229, 3] 1000 s = (Inr self, s')
         \<and> Xception_model (Xception_model_setter self None) \<noteq> None)
   \<and> VGG_model (VGG_model_setter v m) = m"
proof -
  obtain self s' m0 where "Xception_init [229, 229, 3] 1000 s = (Inr self, s')"
    "Xception_model self = Some m0"
    using Xception_init_ok[of 229 229 3 1000 s] by auto
  then show ?thesis
    by (auto simp: Xception_model_def Xception_model_setter_def VGG_model_def VGG_model_setter_def)
qed

text \<open>
  C2. The exit flow, whenever it returns, is: a merge \<open>Add\<close> of a main branch over
  the input with two separable convolutions (728 and 1024 filters) and a
  max-pool, and of a shortcut branch over the same input with one projection
  convolution; after the merge two more separable convolutions (1556 and 2048
  filters), global average pooling and the final dense softmax layer; the two
  branches have equal shapes at the merge. It returns on every input with three
  axes, all positive. The main branch has two separable convolutions
  before the merge, not four.
\<close>

theorem exitFlow_structure:
  "(\<forall>y s'. Xception_exitFlow x k iw s = (Inr y, s') \<longrightarrow>
      (\<exists>m a b.
          peel (rev (exit_tail_layers k (case iw of None \<Rightarrow> ''glorot_uniform'' | Some i \<Rightarrow> i))) y
            = Some m
        \<and> op_of m = Add \<and> inbound m = [a, b] \<and> shape a = shape b
        \<and> peel (rev (exit_main_layers (case iw of None \<Rightarrow> ''glorot_uniform'' | Some i \<Rightarrow> i))) a
            = Some x
        \<and> peel (rev (exit_shortcut_layers (case iw of None \<Rightarrow> ''glorot_uniform'' | Some i \<Rightarrow> i))) b
            = Some x))
   \<and> (length (shape x) = 3 \<and> (\<forall>d \<in> set (shape x). 0 < d) \<longrightarrow>
         (\<exists>y s'. Xception_exitFlow x k iw s = (Inr y, s')))
   \<and> length (filter is_separable (exit_main_layers w)) = 2
   \<and> exit_shortcut_layers w = [Conv2D 1024 (1, 1) (2, 2) Same NoActivation w, BatchNormalization]
   \<and> length (filter is_separable (exit_tail_layers k w)) = 2
   \<and> drop 6 (exit_tail_layers k w) = [GlobalAveragePooling2D, Dense k Softmax w]"
proof (intro conjI allI impI)
  fix y s' assume a: "Xception_exitFlow x k iw s = (Inr y, s')"
  from Xception_exitFlow_good[OF a] obtain h v c where
    "shape x = [h, v, c]" "0 < h" "0 < v" "0 < c" by blast
  from Xception_exitFlow_ok[OF this, of k iw s] a
  show "\<exists>m a b.
          peel (rev (exit_tail_layers k (case iw of None \<Rightarrow> ''glorot_uniform'' | Some i \<Rightarrow> i))) y
            = Some m
        \<and> op_of m = Add \<and> inbound m = [a, b] \<and> shape a = shape b
        \<and> peel (rev (exit_main_layers (case iw of None \<Rightarrow> ''glorot_uniform'' | Some i \<Rightarrow> i))) a
            = Some x
        \<and> peel (rev (exit_shortcut_layers (case iw of None \<Rightarrow> ''glorot_uniform'' | Some i \<Rightarrow> i))) b
            = Some x"
    by auto
next
  assume "length (shape x) = 3 \<and> (\<forall>d \<in> set (shape x). 0 < d)"
  then obtain h v c where "shape x = [h, v, c]" "0 < h" "0 < v" "0 < c"
    by (auto simp: length_Suc_conv numeral_3_eq_3)
  from Xception_exitFlow_ok[OF this, of k iw s]
  show "\<exists>y s'. Xception_exitFlow x k iw s = (Inr y, s')" by blast
qed (simp_all add: exit_main_layers_def exit_shortcut_layers_def exit_tail_layers_def
      is_separable_def)

theorem exitFlow_structure_witness:
  "\<exists>y s' m a b. Xception_exitFlow (Tensor 0 InputLayer [] [4, 4, 8]) 10 None 1 = (Inr y, s')
     \<and> peel (rev (exit_tail_layers 10 ''glorot_uniform'')) y = Some m
     \<and> op_of m = Add \<and> inbound m = [a, b] \<and> shape a = shape b
     \<and> peel (rev (exit_main_layers ''glorot_uniform'')) a = Some (Tensor 0 InputLayer [] [4, 4, 8])
     \<and> peel (rev (exit_shortcut_layers ''glorot_uniform'')) b
          = Some (Tensor 0 InputLayer [] [4, 4, 8])"
proof -
  let ?x = "Tensor 0 InputLayer [] [4, 4, 8]"
  note t = exitFlow_structure[of ?x 10 None 1 "''glorot_uniform''"]
  from t[THEN conjunct2, THEN conjunct1]
  have "\<exists>y s'. Xception_exitFlow ?x 10 None 1 = (Inr y, s')" by simp
  then obtain y s' where ok: "Xception_exitFlow ?x 10 None 1 = (Inr y, s')" by blast
  from t[THEN conjunct1] ok show ?thesis by fastforce
qed

theorem exitFlow_four_before_merge_counterexample:
  "map_sum id separable_before_merge
     (fst (Xception_exitFlow (Tensor 0 InputLayer [] [4, 4, 8]) 10 None 1)) = Inr (Some 2)
   \<and> map_sum id separable_before_merge
     (fst (Xception_exitFlow (Tensor 0 InputLayer [] [4, 4, 8]) 10 None 1)) \<noteq> Inr (Some 4)"
  by (simp add: Xception_exitFlow_def Xception_classifier_def bind_call call_apply Let_def
      separable_before_merge_def is_separable_def)

text \<open>
  C3. Constructing VGG with a layer-count selector outside \<open>{16, 19}\<close> raises the
  invalid-configuration \<^verbatim>\<open>Exception\<close> at once: the framework state comes back
  unchanged, so no node, not even the input placeholder, was created, and no
  object is returned. With selector 16 or 19 no \<^verbatim>\<open>Exception\<close> of that kind is
  raised, whatever the input shape and class count, and nodes are created.
\<close>

theorem VGG_init_invalid_selector:
  "(n \<notin> {16, 19} \<longrightarrow>
      VGG_init n sh k s = (Inl (Exception ''VGG: Invalid value for n_layers''), s))
   \<and> (n \<in> {16, 19} \<longrightarrow>
        (\<forall>msg. fst (VGG_init n sh k s) \<noteq> Inl (Exception msg))
        \<and> s < snd (VGG_init n sh k s))"
proof (intro conjI impI allI)
  assume "n \<notin> {16, 19}"
  then show "VGG_init n sh k s = (Inl (Exception ''VGG: Invalid value for n_layers''), s)"
    by (simp add: VGG_init_def raise_apply)
next
  fix msg assume n: "n \<in> {16, 19}"
  show "fst (VGG_init n sh k s) \<noteq> Inl (Exception msg)"
  proof
    assume a: "fst (VGG_init n sh k s) = Inl (Exception msg)"
    then have "VGG_init n sh k s = (Inl (Exception msg), snd (VGG_init n sh k s))"
      by (metis prod.collapse)
    from VGG_init_Inl[OF _ this] n show False by auto
  qed
next
  assume "n \<in> {16, 19}"
  then show "s < snd (VGG_init n sh k s)"
    using VGG_init_state[of n s sh k] by auto
qed

theorem VGG_init_invalid_selector_witness:
  "VGG_init 17 [224, 224, 3] 1000 0 = (Inl (Exception ''VGG: Invalid value for n_layers''), 0)
   \<and> (\<forall>msg. fst (VGG_init 16 [224, 224, 3] 1000 0) \<noteq> Inl (Exception msg))
   \<and> 0 < snd (VGG_init 16 [224, 224, 3] 1000 0)"
  using VGG_init_invalid_selector[of 17 "[224, 224, 3]" 1000 0]
    VGG_init_invalid_selector[of 16 "[224, 224, 3]" 1000 0]
  by simp

text \<open>
  C4. Whenever a projection block returns, on any input, its result is the \<open>Add\<close>
  of the main branch (two separable convolutions, each normalized and activated,
  then the max-pool) and of the shortcut branch (the strided 1x1 convolution,
  normalized), both over the block's input, and the two have equal shapes; the
  block never fails in the \<open>Add\<close>. The same holds of an identity block on an input
  whose channel count is \<open>n_filters\<close>: its result is the \<open>Add\<close> of the main branch
  (three separable convolutions, each normalized and activated) over the input
  and of the input itself, of equal shapes. Both blocks do return when the sizes
  of the input and the number of filters are positive.
\<close>

theorem merge_branch_shapes:
  "(\<forall>y s'. Xception_projection_block x n iw s = (Inr y, s') \<longrightarrow>
        (\<exists>u a b sh. y = Tensor u Add [a, b] sh
           \<and> peel (rev (projection_main_layers n
                 (case iw of None \<Rightarrow> ''glorot_uniform'' | Some i \<Rightarrow> i))) a = Some x
           \<and> peel (rev (projection_shortcut_layers n
                 (case iw of None \<Rightarrow> ''glorot_uniform'' | Some i \<Rightarrow> i))) b = Some x
           \<and> shape a = shape b))
   \<and> fst (Xception_projection_block x n iw s) \<noteq> Inl (ValueError Add)
   \<and> (\<forall>h v. shape x = [h, v, n] \<longrightarrow>
        (\<forall>y s'. Xception_residual_block x n iw s = (Inr y, s') \<longrightarrow>
           (\<exists>u a sh. y = Tensor u Add [a, x] sh
              \<and> peel (rev (residual_main_layers n
                    (case iw of None \<Rightarrow> ''glorot_uniform'' | Some i \<Rightarrow> i))) a = Some x
              \<and> shape a = shape x))
        \<and> fst (Xception_residual_block x n iw s) \<noteq> Inl (ValueError Add))
   \<and> (\<forall>h v c. shape x = [h, v, c] \<and> 0 < h \<and> 0 < v \<and> 0 < c \<and> 0 < n \<longrightarrow>
        (\<exists>y s'. Xception_projection_block x n iw s = (Inr y, s')))
   \<and> (\<forall>h v. shape x = [h, v, n] \<and> 0 < h \<and> 0 < v \<and> 0 < n \<longrightarrow>
        (\<exists>y s'. Xception_residual_block x n iw s = (Inr y, s')))"
proof (intro conjI allI impI)
  fix y s' assume a: "Xception_projection_block x n iw s = (Inr y, s')"
  from Xception_projection_block_good[OF a] obtain h v c where
    "shape x = [h, v, c]" "0 < h" "0 < v" "0 < c" "0 < n" by blast
  from Xception_projection_block_ok[OF this, of iw s] a
  show "\<exists>u a b sh. y = Tensor u Add [a, b] sh
           \<and> peel (rev (projection_main_layers n
                 (case iw of None \<Rightarrow> ''glorot_uniform'' | Some i \<Rightarrow> i))) a = Some x
           \<and> peel (rev (projection_shortcut_layers n
                 (case iw of None \<Rightarrow> ''glorot_uniform'' | Some i \<Rightarrow> i))) b = Some x
           \<and> shape a = shape b" by auto
next
  show "fst (Xception_projection_block x n iw s) \<noteq> Inl (ValueError Add)"
  proof
    assume "fst (Xception_projection_block x n iw s) = Inl (ValueError Add)"
    then have "Xception_projection_block x n iw s =
        (Inl (ValueError Add), snd (Xception_projection_block x n iw s))"
      by (metis prod.collapse)
    from Xception_projection_block_Inl[OF this] show False by simp
  qed
next
  fix h v y s'
  assume sh: "shape x = [h, v, n]" and a: "Xception_residual_block x n iw s = (Inr y, s')"
  from Xception_residual_block_good[OF a] sh have "0 < h" "0 < v" "0 < n" by auto
  from Xception_residual_block_ok[OF sh this, of iw s] a sh
  show "\<exists>u a sh. y = Tensor u Add [a, x] sh
              \<and> peel (rev (residual_main_layers n
                    (case iw of None \<Rightarrow> ''glorot_uniform'' | Some i \<Rightarrow> i))) a = Some x
              \<and> shape a = shape x" by auto
next
  fix h v assume sh: "shape x = [h, v, n]"
  show "fst (Xception_residual_block x n iw s) \<noteq> Inl (ValueError Add)"
  proof
    assume "fst (Xception_residual_block x n iw s) = Inl (ValueError Add)"
    then have "Xception_residual_block x n iw s =
        (Inl (ValueError Add), snd (Xception_residual_block x n iw s))"
      by (metis prod.collapse)
    from Xception_residual_block_Inl[OF this sh] show False by simp
  qed
next
  fix h v c assume "shape x = [h, v, c] \<and> 0 < h \<and> 0 < v \<and> 0 < c \<and> 0 < n"
  then have "shape x = [h, v, c]" "0 < h" "0 < v" "0 < c" "0 < n" by simp_all
  from Xception_projection_block_ok[OF this, of iw s]
  show "\<exists>y s'. Xception_projection_block x n iw s = (Inr y, s')" by blast
next
  fix h v assume "shape x = [h, v, n] \<and> 0 < h \<and> 0 < v \<and> 0 < n"
  then have "shape x = [h, v, n]" "0 < h" "0 < v" "0 < n" by simp_all
  from Xception_residual_block_ok[OF this, of iw s]
  show "\<exists>y s'. Xception_residual_block x n iw s = (Inr y, s')" by blast
qed

theorem merge_branch_shapes_witness:
  "(\<exists>u a b sh s'. Xception_projection_block (Tensor 0 InputLayer [] [9, 9, 3]) 16 None 1
                     = (Inr (Tensor u Add [a, b] sh), s')
       \<and> peel (rev (projection_main_layers 16 ''glorot_uniform'')) a
           = Some (Tensor 0 InputLayer [] [9, 9, 3])
       \<and> peel (rev (projection_shortcut_layers 16 ''glorot_uniform'')) b
           = Some (Tensor 0 InputLayer [] [9, 9, 3])
       \<and> shape a = shape b)
   \<and> (\<exists>u a sh s'. Xception_residual_block (Tensor 0 InputLayer [] [9, 9, 16]) 16 None 1
                     = (Inr (Tensor u Add [a, Tensor 0 InputLayer [] [9, 9, 16]] sh), s')
       \<and> peel (rev (residual_main_layers 16 ''glorot_uniform'')) a
           = Some (Tensor 0 InputLayer [] [9, 9, 16])
       \<and> shape a = [9, 9, 16])"
proof -
  let ?x = "Tensor 0 InputLayer [] [9, 9, 3]"
  let ?z = "Tensor 0 InputLayer [] [9, 9, 16]"
  note 1 = merge_branch_shapes[of ?x 16 None 1]
  note 2 = merge_branch_shapes[of ?z 16 None 1]
  from 1[THEN conjunct2, THEN conjunct2, THEN conjunct2, THEN conjunct1]
  obtain y s' where ok: "Xception_projection_block ?x 16 None 1 = (Inr y, s')"
    by auto
  from 1[THEN conjunct1] ok
  have A: "\<exists>u a b sh s'. Xception_projection_block ?x 16 None 1
                     = (Inr (Tensor u Add [a, b] sh), s')
       \<and> peel (rev (projection_main_layers 16 ''glorot_uniform'')) a = Some ?x
       \<and> peel (rev (projection_shortcut_layers 16 ''glorot_uniform'')) b = Some ?x
       \<and> shape a = shape b" by fastforce
  from 2[THEN conjunct2, THEN conjunct2, THEN conjunct2, THEN conjunct2]
  obtain y2 s2 where ok2: "Xception_residual_block ?z 16 None 1 = (Inr y2, s2)"
    by auto
  from 2[THEN conjunct2, THEN conjunct2, THEN conjunct1] ok2
  have B: "\<exists>u a sh s'. Xception_residual_block ?z 16 None 1
                     = (Inr (Tensor u Add [a, ?z] sh), s')
       \<and> peel (rev (residual_main_layers 16 ''glorot_uniform'')) a = Some ?z
       \<and> shape a = [9, 9, 16]" by fastforce
  from A B show ?thesis by blast
qed

text \<open>
  C5. Whenever \<^verbatim>\<open>entryFlow\<close> returns, its result read backwards is one projection
  block per entry of the width list, in list order, over the two-convolution stem
  of the input, and exactly \<open>6 + 10 * length blocks\<close> layer objects were created.
  Whenever \<^verbatim>\<open>middleFlow\<close> returns, its result read backwards is one identity block
  per entry of the width list, in list order, over its input, with
  \<open>10 * length blocks\<close> layer objects created. The constructor passes the entry
  widths \<open>[128, 256, 728]\<close> and a middle list of eight entries 728.
\<close>

theorem Xception_flows:
  "(\<forall>y s'. Xception_entryFlow inputs blocks iw s = (Inr y, s') \<longrightarrow>
       (\<exists>x. projection_blocks_back (rev blocks)
                (case iw of None \<Rightarrow> ''glorot_uniform'' | Some i \<Rightarrow> i) y = Some x
           \<and> peel (rev (stem_layers (case iw of None \<Rightarrow> ''glorot_uniform'' | Some i \<Rightarrow> i))) x
               = Some inputs)
       \<and> s' = s + 6 + 10 * length blocks)
   \<and> (\<forall>y s'. Xception_middleFlow x blocks iw s = (Inr y, s') \<longrightarrow>
         residual_blocks_back (rev blocks)
            (case iw of None \<Rightarrow> ''glorot_uniform'' | Some i \<Rightarrow> i) y = Some x
         \<and> s' = s + 10 * length blocks)
   \<and> Xception_init sh k =
        bind (Input sh) (\<lambda>inputs.
        bind (Xception_entryFlow inputs [128, 256, 728] None) (\<lambda>x.
        bind (Xception_middleFlow x (replicate 8 728) None) (\<lambda>x.
        bind (Xception_exitFlow x k None) (\<lambda>outputs.
        return \<lparr>Xception.priv_model = Some (Model inputs outputs)\<rparr>))))"
proof (intro conjI allI impI)
  fix y s' assume "Xception_entryFlow inputs blocks iw s = (Inr y, s')"
  from Xception_entryFlow_Inr[OF this]
  show "\<exists>x. projection_blocks_back (rev blocks)
                (case iw of None \<Rightarrow> ''glorot_uniform'' | Some i \<Rightarrow> i) y = Some x
           \<and> peel (rev (stem_layers (case iw of None \<Rightarrow> ''glorot_uniform'' | Some i \<Rightarrow> i))) x
               = Some inputs"
    and "s' = s + 6 + 10 * length blocks" by blast+
next
  fix y s' assume "Xception_middleFlow x blocks iw s = (Inr y, s')"
  from Xception_middleFlow_Inr[OF this]
  show "residual_blocks_back (rev blocks)
            (case iw of None \<Rightarrow> ''glorot_uniform'' | Some i \<Rightarrow> i) y = Some x"
    and "s' = s + 10 * length blocks" by blast+
next
  have "replicate 8 728 = [728, 728, 728, 728, 728, 728, 728, 728 :: nat]"
    by (simp add: numeral_eq_Suc)
  then show "Xception_init sh k =
        bind (Input sh) (\<lambda>inputs.
        bind (Xception_entryFlow inputs [128, 256, 728] None) (\<lambda>x.
        bind (Xception_middleFlow x (replicate 8 728) None) (\<lambda>x.
        bind (Xception_exitFlow x k None) (\<lambda>outputs.
        return \<lparr>Xception.priv_model = Some (Model inputs outputs)\<rparr>))))"
    by (simp add: Xception_init_def)
qed

theorem Xception_flows_witness:
  "(\<exists>y s'. Xception_entryFlow (Tensor 0 InputLayer [] [20, 20, 3]) [8, 16] None 1 = (Inr y, s')
       \<and> (\<exists>x. projection_blocks_back [16, 8] ''glorot_uniform'' y = Some x
             \<and> peel (rev (stem_layers ''glorot_uniform'')) x
                 = Some (Tensor 0 InputLayer [] [20, 20, 3]))
       \<and> s' = 27)
   \<and> (\<exists>y s'. Xception_middleFlow (Tensor 0 InputLayer [] [5, 5, 8]) [8, 8] (Some ''he_normal'') 1
                 = (Inr y, s')
       \<and> residual_blocks_back [8, 8] ''he_normal'' y = Some (Tensor 0 InputLayer [] [5, 5, 8])
       \<and> s' = 21)"
proof -
  let ?x = "Tensor 0 InputLayer [] [20, 20, 3]"
  let ?z = "Tensor 0 InputLayer [] [5, 5, 8]"
  obtain y s' where e: "Xception_entryFlow ?x [8, 16] None 1 = (Inr y, s')"
    using Xception_entryFlow_small_input by blast
  obtain y2 s2 where m: "Xception_middleFlow ?z [8, 8] (Some ''he_normal'') 1 = (Inr y2, s2)"
    using Xception_middleFlow_small_input by blast
  from Xception_flows[where inputs = ?x and blocks = "[8, 16]" and iw = None and s = 1,
      THEN conjunct1] e
  have A: "(\<exists>x. projection_blocks_back [16, 8] ''glorot_uniform'' y = Some x
             \<and> peel (rev (stem_layers ''glorot_uniform'')) x = Some ?x) \<and> s' = 27"
    by simp
  from Xception_flows[where x = ?z and blocks = "[8, 8]" and iw = "Some ''he_normal''" and s = 1,
      THEN conjunct2, THEN conjunct1] m
  have B: "residual_blocks_back [8, 8] ''he_normal'' y2 = Some ?z \<and> s2 = 21"
    by simp
  from e m A B show ?thesis by blast
qed



text \<open>
  C7. For selector 16 or 19 the table has five stages with the pairs below, and
  the learner is exactly the sequence of calls, each on the output of the one
  before, of the layers of its stages in order: per stage \<open>repeat\<close> same-padded
  stride-1 3x3 convolutions of the width and one 2x2 stride-2 max-pool. When it
  succeeds, the result is a chain of single-input nodes with these layers back to
  the learner's input.
\<close>

theorem VGG_learner_stages:
  assumes "n = 16 \<or> n = 19"
  shows "\<exists>blocks. VGG_groups n = Some blocks
     \<and> blocks = (if n = 16 then [(1, 64), (2, 128), (3, 256), (3, 512), (3, 512)]
                 else [(1, 64), (2, 128), (4, 256), (4, 256), (4, 256)])
     \<and> length blocks = 5
     \<and> VGG_learner x blocks = call_sequence (concat (map stage_layers blocks)) x
     \<and> (\<forall>s y s'. VGG_learner x blocks s = (Inr y, s') \<longrightarrow>
           peel (rev (concat (map stage_layers blocks))) y = Some x)"
proof -
  from assms obtain blocks where g: "VGG_groups n = Some blocks"
    and b: "blocks = (if n = 16 then [(1, 64), (2, 128), (3, 256), (3, 512), (3, 512)]
                 else [(1, 64), (2, 128), (4, 256), (4, 256), (4, 256)])"
    by (auto simp: VGG_groups_def)
  have len: "length blocks = 5" by (simp add: b)
  have seq: "VGG_learner x blocks = call_sequence (concat (map stage_layers blocks)) x"
    by (rule VGG_learner_sequence)
  have "\<forall>s y s'. VGG_learner x blocks s = (Inr y, s') \<longrightarrow>
           peel (rev (concat (map stage_layers blocks))) y = Some x"
    unfolding seq using call_sequence_Inr by blast
  with g b len seq show ?thesis by blast
qed

theorem VGG_learner_stages_witness:
  "\<exists>blocks. VGG_groups 19 = Some blocks
     \<and> blocks = [(1, 64), (2, 128), (4, 256), (4, 256), (4, 256)]
     \<and> (\<exists>y s'. VGG_learner (Tensor 0 InputLayer [] [32, 32, 3]) blocks 1 = (Inr y, s')
           \<and> peel (rev (concat (map stage_layers blocks))) y
               = Some (Tensor 0 InputLayer [] [32, 32, 3]))"
proof -
  let ?x = "Tensor 0 InputLayer [] [32, 32, 3]"
  from VGG_learner_stages[of 19 ?x] obtain blocks where
    g: "VGG_groups 19 = Some blocks"
    and b: "blocks = [(1, 64), (2, 128), (4, 256), (4, 256), (4, 256)]"
    and p: "\<forall>s y s'. VGG_learner ?x blocks s = (Inr y, s') \<longrightarrow>
           peel (rev (concat (map stage_layers blocks))) y = Some ?x"
    by auto
  have "shape ?x = [32, 32, 3]" by simp
  moreover have "\<forall>b \<in> set blocks. 0 < snd b" by (simp add: b)
  ultimately obtain y s' where "VGG_learner ?x blocks 1 = (Inr y, s')"
    using VGG_learner_ok[of ?x 32 32 3 blocks 1] by (auto simp: b)
  with p g b show ?thesis by blast
qed

text \<open>
  C8. For each builder, two constructions with the same parameters, started in
  any two states of the framework, have the same outcome: the same error, or
  models that are equal once the node numbers are erased (same layers, same
  arguments, same wiring, same shapes).
\<close>

theorem construction_deterministic:
  "map_sum id (\<lambda>self. map_option erase_model (VGG_model self)) (fst (VGG_init n sh k s1))
     = map_sum id (\<lambda>self. map_option erase_model (VGG_model self)) (fst (VGG_init n sh k s2))
   \<and> map_sum id (\<lambda>self. map_option erase_model (Xception_model self)) (fst (Xception_init sh k s1))
     = map_sum id (\<lambda>self. map_option erase_model (Xception_model self)) (fst (Xception_init sh k s2))"
  using same_outcome_map_sum[OF VGG_init_same, of n sh k s1 s2]
    same_outcome_map_sum[OF Xception_init_same, of sh k s1 s2]
  by simp

theorem construction_deterministic_witness:
  "\<exists>a b. fst (VGG_init 16 [32, 32, 3] 10 0) = Inr a \<and> fst (VGG_init 16 [32, 32, 3] 10 5) = Inr b
     \<and> VGG_model a \<noteq> VGG_model b
     \<and> map_option erase_model (VGG_model a) = map_option erase_model (VGG_model b)"
proof -
  obtain a s' where a: "VGG_init 16 [32, 32, 3] 10 0 = (Inr a, s')"
    using VGG_init_ok[of 16 32 32 3 10 0] by auto
  obtain b s'' where b: "VGG_init 16 [32, 32, 3] 10 5 = (Inr b, s'')"
    using VGG_init_ok[of 16 32 32 3 10 5] by auto
  from VGG_init_inputs[OF a] VGG_init_inputs[OF b]
  have ne: "VGG_model a \<noteq> VGG_model b" by (auto simp: Model_def)
  from construction_deterministic[of 16 "[32, 32, 3]" 10 0 5] a b
  have "map_option erase_model (VGG_model a) = map_option erase_model (VGG_model b)"
    by simp
  with a b ne show ?thesis by auto
qed

text \<open>
  C9. With selector 16 or 19 and an input shape \<open>(h, w, c)\<close> with positive \<open>c\<close>:
  when \<open>h \<ge> 32\<close> and \<open>w \<ge> 32\<close>, construction returns a model whose graph is the
  input placeholder of that shape followed by the whole chain of layers of the
  variant (stem, five stages, classifier) and nothing else; when \<open>h\<close> or \<open>w\<close> is
  below 32, it fails in the 2x2 stride-2 unpadded max-pool that ends one of the
  five stages, namely the first stage \<open>j + 1\<close> whose input is shorter than 2 in
  height or width, after creating exactly the layers up to that max-pool.
  With no channel (\<open>c = 0\<close>) the failure is in the stem convolution instead.
\<close>

theorem VGG_init_input_shape:
  assumes "n = 16 \<or> n = 19"
  shows "\<exists>blocks. VGG_groups n = Some blocks
     \<and> (32 \<le> h \<and> 32 \<le> w \<and> 0 < c \<longrightarrow>
          (\<exists>self m. VGG_init n [h, w, c] k s = (Inr self, s + 1 + length (VGG_layers blocks k))
             \<and> VGG_model self = Some m
             \<and> model_inputs m = Tensor s InputLayer [] [h, w, c]
             \<and> peel (rev (VGG_layers blocks k)) (model_outputs m) = Some (model_inputs m)
             \<and> shape (model_outputs m) = [k]))
     \<and> ((h < 32 \<or> w < 32) \<and> 0 < c \<longrightarrow>
          (\<exists>j < 5. VGG_init n [h, w, c] k s =
                (Inl (ValueError (MaxPooling2D (2, 2) (2, 2) Valid)),
                 s + 2 + length (concat (map stage_layers (take (Suc j) blocks))))
             \<and> (j = 0 \<or> (2 ^ j \<le> h \<and> 2 ^ j \<le> w))
             \<and> (h < 2 ^ Suc j \<or> w < 2 ^ Suc j)))"
proof -
  from VGG_groups_valid[OF assms] obtain blocks where g: "VGG_groups n = Some blocks"
    by blast
  have ok: "\<exists>self m. VGG_init n [h, w, c] k s = (Inr self, s + 1 + length (VGG_layers blocks k))
             \<and> VGG_model self = Some m
             \<and> model_inputs m = Tensor s InputLayer [] [h, w, c]
             \<and> peel (rev (VGG_layers blocks k)) (model_outputs m) = Some (model_inputs m)
             \<and> shape (model_outputs m) = [k]"
    if "32 \<le> h \<and> 32 \<le> w \<and> 0 < c"
  proof -
    from that VGG_init_ok[OF assms, of h w c k s] obtain self s' where
      r: "VGG_init n [h, w, c] k s = (Inr self, s')" by blast
    from VGG_init_graph[OF r] VGG_init_Inr[OF r] g r show ?thesis by auto
  qed
  have fail: "\<exists>j < 5. VGG_init n [h, w, c] k s =
                (Inl (ValueError (MaxPooling2D (2, 2) (2, 2) Valid)),
                 s + 2 + length (concat (map stage_layers (take (Suc j) blocks))))
             \<and> (j = 0 \<or> (2 ^ j \<le> h \<and> 2 ^ j \<le> w))
             \<and> (h < 2 ^ Suc j \<or> w < 2 ^ Suc j)"
    if "(h < 32 \<or> w < 32) \<and> 0 < c"
    using that VGG_init_fail[OF assms g, of h w c k s] by blast
  from g ok fail show ?thesis by blast
qed

theorem VGG_init_input_shape_witness:
  "(\<exists>self m. VGG_init 16 [32, 32, 3] 10 0 = (Inr self, 23)
      \<and> VGG_model self = Some m
      \<and> model_inputs m = Tensor 0 InputLayer [] [32, 32, 3]
      \<and> peel (rev (VGG_layers [(1, 64), (2, 128), (3, 256), (3, 512), (3, 512)] 10))
           (model_outputs m) = Some (model_inputs m)
      \<and> shape (model_outputs m) = [10])
   \<and> VGG_init 19 [224, 15, 3] 10 0 =
        (Inl (ValueError (MaxPooling2D (2, 2) (2, 2) Valid)), 17)"
proof -
  from VGG_init_input_shape[of 16 32 32 3 10 0] obtain blocks where
    g: "VGG_groups 16 = Some blocks"
    and ok: "\<exists>self m. VGG_init 16 [32, 32, 3] 10 0 = (Inr self, 0 + 1 + length (VGG_layers blocks 10))
             \<and> VGG_model self = Some m
             \<and> model_inputs m = Tensor 0 InputLayer [] [32, 32, 3]
             \<and> peel (rev (VGG_layers blocks 10)) (model_outputs m) = Some (model_inputs m)
             \<and> shape (model_outputs m) = [10]"
    by auto
  from g have b: "blocks = [(1, 64), (2, 128), (3, 256), (3, 512), (3, 512)]"
    by (simp add: VGG_groups_def)
  have len: "0 + 1 + length (VGG_layers blocks 10) = 23"
    by (simp add: b VGG_layers_def stage_layers_def)
  from VGG_init_input_shape[of 19 224 15 3 10 0] obtain blocks' j where
    g': "VGG_groups 19 = Some blocks'" and j: "j < 5"
    and e: "VGG_init 19 [224, 15, 3] 10 0 =
                (Inl (ValueError (MaxPooling2D (2, 2) (2, 2) Valid)),
                 0 + 2 + length (concat (map stage_layers (take (Suc j) blocks'))))"
    and lo: "j = 0 \<or> (2 ^ j \<le> (224::nat) \<and> 2 ^ j \<le> (15::nat))"
    and hi: "(224::nat) < 2 ^ Suc j \<or> (15::nat) < 2 ^ Suc j"
    by auto
  from g' have b': "blocks' = [(1, 64), (2, 128), (4, 256), (4, 256), (4, 256)]"
    by (simp add: VGG_groups_def)
  have j3: "j = 3"
  proof -
    from j have "j = 0 \<or> j = 1 \<or> j = 2 \<or> j = 3 \<or> j = 4" by arith
    then show ?thesis
    proof (elim disjE)
      assume "j = 0" with hi show ?thesis by simp
    next
      assume "j = 1" with hi show ?thesis by simp
    next
      assume "j = 2" with hi show ?thesis by simp
    next
      assume "j = 4" with lo show ?thesis by simp
    qed simp
  qed
  have "0 + 2 + length (concat (map stage_layers (take (Suc j) blocks'))) = 17"
    by (simp add: j3 b' stage_layers_def numeral_eq_Suc)
  with e ok show ?thesis unfolding b[symmetric] len by simp
qed

theorem VGG_init_no_channel_counterexample:
  "VGG_init 16 [31, 32, 0] 1000 0 =
     (Inl (ValueError (Conv2D 64 (3, 3) (1, 1) Same Relu ''glorot_uniform'')), 2)
   \<and> fst (VGG_init 16 [31, 32, 0] 1000 0) \<noteq> Inl (ValueError (MaxPooling2D (2, 2) (2, 2) Valid))"
  by (simp add: VGG_init_def VGG_stem_def VGG_init_weights_def Input_def bind_def call_def)

text \<open>
  C10. On every input tensor of shape \<open>(h, w, c)\<close> with positive \<open>h\<close>, \<open>w\<close> and \<open>c\<close>
  and for every positive \<open>n_filters\<close>, \<^verbatim>\<open>projection_block\<close> returns and its output
  has shape \<open>(ceil(h/2), ceil(w/2), n_filters)\<close>, whatever \<open>c\<close> is. With a size or
  a number of filters of 0 it raises.
\<close>

theorem projection_block_output_shape:
  assumes "shape x = [h, w, c]" "0 < h" "0 < w" "0 < c" "0 < n_filters"
  shows "\<exists>y s'. Xception_projection_block x n_filters init_weights s = (Inr y, s')
           \<and> shape y = [nat \<lceil>real h / 2\<rceil>, nat \<lceil>real w / 2\<rceil>, n_filters]"
  using Xception_projection_block_ok[OF assms, of init_weights s]
  by (auto simp: half_ceiling)

theorem projection_block_output_shape_witness:
  "\<exists>y s'. Xception_projection_block (Tensor 0 InputLayer [] [7, 10, 3]) 128 None 1 = (Inr y, s')
           \<and> shape y = [4, 5, 128]"
proof -
  have c: "nat \<lceil>real 7 / 2\<rceil> = 4" "nat \<lceil>real 10 / 2\<rceil> = 5" by linarith+
  show ?thesis
    using projection_block_output_shape[of "Tensor 0 InputLayer [] [7, 10, 3]" 7 10 3 128 None 1]
    unfolding c by simp
qed

theorem projection_block_zero_counterexample:
  "fst (Xception_projection_block (Tensor 0 InputLayer [] [4, 4, 3]) 0 None 1) =
     Inl (ValueError (Conv2D 0 (1, 1) (2, 2) Same NoActivation ''glorot_uniform''))
   \<and> fst (Xception_projection_block (Tensor 0 InputLayer [] [4, 4, 0]) 8 None 1) =
     Inl (ValueError (Conv2D 8 (1, 1) (2, 2) Same NoActivation ''glorot_uniform''))
   \<and> fst (Xception_projection_block (Tensor 0 InputLayer [] [0, 4, 3]) 8 None 1) =
     Inl (ValueError (SeparableConv2D 8 (3, 3) (1, 1) Same NoActivation ''glorot_uniform''))
   \<and> fst (Xception_projection_block (Tensor 0 InputLayer [] [4, 0, 3]) 8 None 1) =
     Inl (ValueError (SeparableConv2D 8 (3, 3) (1, 1) Same NoActivation ''glorot_uniform''))"
  by (simp add: Xception_projection_block_def Xception_init_weights_def Let_def bind_call)

end
